theory Spec2Isabelle
  imports Main "HOL-Library.Word"
begin

section \<open>The port OS layer of ubxlib (ESP32 platform)\<close>

text \<open>
  A shallow embedding of \<^verbatim>\<open>port/platform/esp-idf/src/u_port_os.c\<close>: the thin layer
  that validates its parameters, calls FreeRTOS and turns the kernel's answer into one of
  the common error codes, counting the live OS resources on the way.

  The target is a 32-bit machine: \<^verbatim>\<open>int32_t\<close>, \<^verbatim>\<open>uint32_t\<close>, \<^verbatim>\<open>size_t\<close>,
  \<^verbatim>\<open>BaseType_t\<close>, \<^verbatim>\<open>TickType_t\<close> and every pointer or handle are 32-bit words. A word
  carries no sign: signed comparisons are written with \<open>sint\<close>, and \<open>div\<close> on words is
  the unsigned division that C performs once an \<^verbatim>\<open>int32_t\<close> meets a \<^verbatim>\<open>TickType_t\<close>.
\<close>

type_synonym int32_t = "32 word"
type_synonym uint32_t = "32 word"
type_synonym size_t = "32 word"
type_synonym BaseType_t = "32 word"
type_synonym TickType_t = "32 word"
type_synonym ptr = "32 word"

definition NULL :: ptr where
  "NULL = 0"

subsection \<open>Constants of the headers\<close>

text \<open>
  Modelled from the spec: \<^verbatim>\<open>u_error_common.h\<close> is not among the sources. The spec
  fixes a success indicator and three error kinds (invalid parameter, platform failure,
  timeout), pairwise distinct; the timer functions of the source test success as
  \<^verbatim>\<open>errorCode == 0\<close> and the headers promise "zero on success else negative error
  code". The numbers are those of the enumeration \<^verbatim>\<open>uErrorCode_t\<close>; the theorems use
  only that they are distinct and that success is zero.
\<close>

definition U_ERROR_COMMON_SUCCESS :: int32_t where
  "U_ERROR_COMMON_SUCCESS = 0"

definition U_ERROR_COMMON_INVALID_PARAMETER :: int32_t where
  "U_ERROR_COMMON_INVALID_PARAMETER = - 5"

definition U_ERROR_COMMON_PLATFORM :: int32_t where
  "U_ERROR_COMMON_PLATFORM = - 8"

definition U_ERROR_COMMON_TIMEOUT :: int32_t where
  "U_ERROR_COMMON_TIMEOUT = - 9"

text \<open>
  The FreeRTOS constants: \<^verbatim>\<open>pdTRUE\<close> and \<^verbatim>\<open>pdPASS\<close> are 1, and \<^verbatim>\<open>portMAX_DELAY\<close>
  is the largest tick count, the kernel's "wait for ever".
\<close>

definition pdTRUE :: BaseType_t where
  "pdTRUE = 1"

definition pdPASS :: BaseType_t where
  "pdPASS = 1"

definition portMAX_DELAY :: TickType_t where
  "portMAX_DELAY = - 1"

text \<open>
  The values of \<^verbatim>\<open>u_cfg_os_platform_specific.h\<close> and of the FreeRTOS configuration
  differ from platform to platform, so the functions take them as a parameter. The header
  among the sources is the one of the STM32F4: priorities 1 to 15, and a yield time of
  1 ms because the tick is 1 ms.
\<close>

record cfg =
  U_CFG_OS_PRIORITY_MIN :: int32_t
  U_CFG_OS_PRIORITY_MAX :: int32_t
  U_CFG_OS_YIELD_MS :: int32_t
  portTICK_PERIOD_MS :: TickType_t

definition stm32f4_cfg :: cfg where
  "stm32f4_cfg =
     \<lparr>U_CFG_OS_PRIORITY_MIN = 1, U_CFG_OS_PRIORITY_MAX = 15, U_CFG_OS_YIELD_MS = 1,
      portTICK_PERIOD_MS = 1\<rparr>"

subsection \<open>The platform underneath\<close>

text \<open>
  FreeRTOS is outside this layer, and so are \<^verbatim>\<open>uPortPrivateTimerCreate\<close> and
  \<^verbatim>\<open>uPortPrivateTimerDelete\<close> of \<^verbatim>\<open>u_port_private.c\<close> and the printing
  \<^verbatim>\<open>uPortLog\<close>, which are not among the sources. Each call the layer makes to
  them is a value of \<open>pcall\<close>, holding the arguments in the order of the C prototype
  (the address of the local \<^verbatim>\<open>yield\<close> is left out). What the platform answers is a
  parameter of the model: a function of the calls made so far and of the call at hand, so
  that an answer may depend on everything that happened before, and every theorem below
  that does not name a platform holds for all of them. An answer is the value returned
  (\<open>ret\<close>: a
  \<^verbatim>\<open>BaseType_t\<close>, a count or a handle; unused for a \<^verbatim>\<open>void\<close> function) and the value
  the callee stored through its output pointer, if it stored one (\<open>out\<close>: the task handle
  of \<^verbatim>\<open>xTaskCreate\<close>, the timer handle of \<^verbatim>\<open>uPortPrivateTimerCreate\<close>, the
  \<^verbatim>\<open>pxHigherPriorityTaskWoken\<close> flag of the interrupt entry points).

  A call to the platform always answers in this model: a kernel call that blocks for ever,
  or \<^verbatim>\<open>vTaskDelete(NULL)\<close> ending the calling task, is the kernel's behaviour and not
  this layer's. The bytes a queue copies to and from \<^verbatim>\<open>pEventData\<close> are the kernel's
  too; this layer only passes the pointer on.
\<close>

datatype pcall =
    xTaskCreate ptr ptr size_t ptr int32_t ptr
  | vTaskDelete ptr
  | xTaskGetCurrentTaskHandle
  | vTaskDelay TickType_t
  | uxTaskGetStackHighWaterMark ptr
  | xQueueCreate size_t size_t
  | vQueueDelete ptr
  | xQueueSend ptr ptr TickType_t
  | xQueueSendFromISR ptr ptr
  | xQueueReceive ptr ptr TickType_t
  | xQueueReceiveFromISR ptr ptr ptr
  | xQueuePeek ptr ptr TickType_t
  | uxQueueSpacesAvailable ptr
  | xSemaphoreCreateMutex
  | xSemaphoreCreateCounting uint32_t uint32_t
  | vSemaphoreDelete ptr
  | xSemaphoreTake ptr TickType_t
  | xSemaphoreGive ptr
  | xSemaphoreGiveFromISR ptr
  | taskYIELD
  | uPortPrivateTimerCreate ptr ptr ptr ptr uint32_t bool
  | uPortPrivateTimerDelete ptr
  | xTimerStart ptr TickType_t
  | xTimerStop ptr TickType_t
  | xTimerChangePeriod ptr TickType_t TickType_t
  | uPortLog ptr

record presp =
  ret :: "32 word"
  out :: "32 word option"

type_synonym platform = "pcall list \<Rightarrow> pcall \<Rightarrow> presp"

subsection \<open>The state of the layer\<close>

text \<open>
  \<open>gResourceAllocCount\<close> is the one variable of the file. \<open>mem\<close> holds the handle
  variables of the callers, which the create functions write through their output
  pointer. \<open>trace\<close> is the list of platform calls made so far, oldest first: the effect
  of the layer on the kernel.
\<close>

record os_state =
  gResourceAllocCount :: int32_t
  mem :: "ptr \<Rightarrow> 32 word"
  trace :: "pcall list"

definition os_init :: os_state where
  "os_init = \<lparr>gResourceAllocCount = 0, mem = (\<lambda>_. 0), trace = []\<rparr>"

definition invoke :: "platform \<Rightarrow> pcall \<Rightarrow> os_state \<Rightarrow> presp \<times> os_state" where
  "invoke P c s = (P (trace s) c, s\<lparr>trace := trace s @ [c]\<rparr>)"

definition store_out :: "ptr \<Rightarrow> 32 word option \<Rightarrow> os_state \<Rightarrow> os_state" where
  "store_out p v s = (case v of None \<Rightarrow> s | Some h \<Rightarrow> s\<lparr>mem := (mem s)(p := h)\<rparr>)"

text \<open>
  Modelled from the spec: the macros \<^verbatim>\<open>U_ATOMIC_INCREMENT\<close>, \<^verbatim>\<open>U_ATOMIC_DECREMENT\<close>
  and \<^verbatim>\<open>U_ATOMIC_GET\<close> of \<^verbatim>\<open>u_compiler.h\<close> are not among the sources. The spec
  calls them atomic single operations on the counter: one step each, adding one, taking
  one away and reading, on a 32-bit integer that wraps around. The
  \<^verbatim>\<open>U_PORT_OS_DEBUG_PRINT_...\<close> macros only print and are left out.
\<close>

definition U_ATOMIC_INCREMENT :: "os_state \<Rightarrow> os_state" where
  "U_ATOMIC_INCREMENT s = s\<lparr>gResourceAllocCount := gResourceAllocCount s + 1\<rparr>"

definition U_ATOMIC_DECREMENT :: "os_state \<Rightarrow> os_state" where
  "U_ATOMIC_DECREMENT s = s\<lparr>gResourceAllocCount := gResourceAllocCount s - 1\<rparr>"

definition U_ATOMIC_GET :: "os_state \<Rightarrow> int32_t" where
  "U_ATOMIC_GET s = gResourceAllocCount s"

subsection \<open>Tasks\<close>

definition uPortTaskCreate ::
  "cfg \<Rightarrow> platform \<Rightarrow> ptr \<Rightarrow> ptr \<Rightarrow> size_t \<Rightarrow> ptr \<Rightarrow> int32_t \<Rightarrow> ptr \<Rightarrow> os_state
     \<Rightarrow> int32_t \<times> os_state" where
  "uPortTaskCreate C P pFunction pName stackSizeBytes pParameter priority pTaskHandle s =
     (let errorCode = U_ERROR_COMMON_INVALID_PARAMETER in
      if pFunction \<noteq> NULL \<and> pTaskHandle \<noteq> NULL \<and>
         sint (U_CFG_OS_PRIORITY_MIN C) \<le> sint priority \<and>
         sint priority \<le> sint (U_CFG_OS_PRIORITY_MAX C)
      then
        let (r, s1) = invoke P (xTaskCreate pFunction pName stackSizeBytes pParameter
                                  priority pTaskHandle) s;
            s2 = store_out pTaskHandle (out r) s1
        in if ret r = pdPASS
           then (U_ERROR_COMMON_SUCCESS, U_ATOMIC_INCREMENT s2)
           else (errorCode, s2)
      else (errorCode, s))"

definition uPortTaskDelete :: "platform \<Rightarrow> ptr \<Rightarrow> os_state \<Rightarrow> int32_t \<times> os_state" where
  "uPortTaskDelete P taskHandle s =
     (let errorCode = U_ERROR_COMMON_INVALID_PARAMETER in
      if taskHandle = NULL
      then
        let s1 = U_ATOMIC_DECREMENT s;
            (r, s2) = invoke P (vTaskDelete taskHandle) s1
        in (U_ERROR_COMMON_SUCCESS, s2)
      else (errorCode, s))"

definition uPortTaskIsThis :: "platform \<Rightarrow> ptr \<Rightarrow> os_state \<Rightarrow> bool \<times> os_state" where
  "uPortTaskIsThis P taskHandle s =
     (let (r, s1) = invoke P xTaskGetCurrentTaskHandle s in (ret r = taskHandle, s1))"

definition uPortTaskBlock :: "cfg \<Rightarrow> platform \<Rightarrow> int32_t \<Rightarrow> os_state \<Rightarrow> os_state" where
  "uPortTaskBlock C P delayMs s =
     snd (invoke P (vTaskDelay (delayMs div portTICK_PERIOD_MS C)) s)"

definition uPortTaskStackMinFree :: "platform \<Rightarrow> ptr \<Rightarrow> os_state \<Rightarrow> int32_t \<times> os_state" where
  "uPortTaskStackMinFree P taskHandle s =
     (let (handle, s1) =
            (if taskHandle = NULL
             then let (r, s') = invoke P xTaskGetCurrentTaskHandle s in (ret r, s')
             else (taskHandle, s));
          (r, s2) = invoke P (uxTaskGetStackHighWaterMark handle) s1
      in (ret r, s2))"

definition uPortTaskGetHandle :: "platform \<Rightarrow> ptr \<Rightarrow> os_state \<Rightarrow> int32_t \<times> os_state" where
  "uPortTaskGetHandle P pTaskHandle s =
     (let errorCode = U_ERROR_COMMON_INVALID_PARAMETER in
      if pTaskHandle \<noteq> NULL
      then
        let (r, s1) = invoke P xTaskGetCurrentTaskHandle s;
            s2 = s1\<lparr>mem := (mem s1)(pTaskHandle := ret r)\<rparr>
        in (U_ERROR_COMMON_SUCCESS, s2)
      else (errorCode, s))"

subsection \<open>Queues\<close>

definition uPortQueueCreate ::
  "platform \<Rightarrow> size_t \<Rightarrow> size_t \<Rightarrow> ptr \<Rightarrow> os_state \<Rightarrow> int32_t \<times> os_state" where
  "uPortQueueCreate P queueLength itemSizeBytes pQueueHandle s =
     (let errorCode = U_ERROR_COMMON_INVALID_PARAMETER in
      if pQueueHandle \<noteq> NULL
      then
        let errorCode = U_ERROR_COMMON_PLATFORM;
            (r, s1) = invoke P (xQueueCreate queueLength itemSizeBytes) s;
            s2 = s1\<lparr>mem := (mem s1)(pQueueHandle := ret r)\<rparr>
        in if mem s2 pQueueHandle \<noteq> NULL
           then (U_ERROR_COMMON_SUCCESS, U_ATOMIC_INCREMENT s2)
           else (errorCode, s2)
      else (errorCode, s))"

definition uPortQueueDelete :: "platform \<Rightarrow> ptr \<Rightarrow> os_state \<Rightarrow> int32_t \<times> os_state" where
  "uPortQueueDelete P queueHandle s =
     (let errorCode = U_ERROR_COMMON_INVALID_PARAMETER in
      if queueHandle \<noteq> NULL
      then
        let (r, s1) = invoke P (vQueueDelete queueHandle) s
        in (U_ERROR_COMMON_SUCCESS, U_ATOMIC_DECREMENT s1)
      else (errorCode, s))"

text \<open>
  \<^verbatim>\<open>uPortQueueSend\<close> as it is compiled without \<^verbatim>\<open>U_CFG_QUEUE_DEBUG\<close>: one call
  that waits for ever.
\<close>

definition uPortQueueSend :: "platform \<Rightarrow> ptr \<Rightarrow> ptr \<Rightarrow> os_state \<Rightarrow> int32_t \<times> os_state" where
  "uPortQueueSend P queueHandle pEventData s =
     (let errorCode = U_ERROR_COMMON_INVALID_PARAMETER in
      if queueHandle \<noteq> NULL \<and> pEventData \<noteq> NULL
      then
        let errorCode = U_ERROR_COMMON_PLATFORM;
            (r, s1) = invoke P (xQueueSend queueHandle pEventData portMAX_DELAY) s
        in if ret r = pdTRUE then (U_ERROR_COMMON_SUCCESS, s1) else (errorCode, s1)
      else (errorCode, s))"

text \<open>
  \<^verbatim>\<open>uPortQueueSend\<close> as it is compiled with \<^verbatim>\<open>U_CFG_QUEUE_DEBUG\<close>: the
  \<^verbatim>\<open>do ... while\<close> loop polls the queue without waiting, prints a notice about once
  a second and blocks for the yield time between two attempts. It ends only when the
  kernel accepts the item, so the loop is a partial function: \<open>None\<close> when the kernel
  never does. \<open>x\<close> is the \<^verbatim>\<open>size_t\<close> count of failed attempts; the notice is the
  \<open>uPortLog\<close> call with the queue handle it prints. For the positive yield times of the
  headers the word division \<open>1000 div U_CFG_OS_YIELD_MS\<close> is C's.
\<close>

partial_function (option) queueSendRetry ::
  "cfg \<Rightarrow> platform \<Rightarrow> ptr \<Rightarrow> ptr \<Rightarrow> size_t \<Rightarrow> os_state \<Rightarrow> os_state option" where
  "queueSendRetry C P queueHandle pEventData x s =
     (let (r, s1) = invoke P (xQueueSend queueHandle pEventData 0) s in
      if ret r = pdTRUE then Some s1
      else
        let s2 = (if x mod (1000 div U_CFG_OS_YIELD_MS C) = 0
                  then snd (invoke P (uPortLog queueHandle) s1) else s1);
            s3 = uPortTaskBlock C P (U_CFG_OS_YIELD_MS C) s2
        in queueSendRetry C P queueHandle pEventData (x + 1) s3)"

definition uPortQueueSend_debug ::
  "cfg \<Rightarrow> platform \<Rightarrow> ptr \<Rightarrow> ptr \<Rightarrow> os_state \<Rightarrow> (int32_t \<times> os_state) option" where
  "uPortQueueSend_debug C P queueHandle pEventData s =
     (let errorCode = U_ERROR_COMMON_INVALID_PARAMETER in
      if queueHandle \<noteq> NULL \<and> pEventData \<noteq> NULL
      then
        (case queueSendRetry C P queueHandle pEventData 0 s of
           None \<Rightarrow> None
         | Some s1 \<Rightarrow> Some (U_ERROR_COMMON_SUCCESS, s1))
      else Some (errorCode, s))"

text \<open>
  The interrupt entry points hand the kernel the address of the local \<^verbatim>\<open>yield\<close>, which
  starts as \<^verbatim>\<open>false\<close>; what the kernel stored there is the \<open>out\<close> of its answer, and
  \<^verbatim>\<open>taskYIELD()\<close> follows when it is not zero.
\<close>

definition yield_of :: "presp \<Rightarrow> BaseType_t" where
  "yield_of r = (case out r of None \<Rightarrow> 0 | Some y \<Rightarrow> y)"

definition uPortQueueSendIrq :: "platform \<Rightarrow> ptr \<Rightarrow> ptr \<Rightarrow> os_state \<Rightarrow> int32_t \<times> os_state" where
  "uPortQueueSendIrq P queueHandle pEventData s =
     (let yield = 0;
          errorCode = U_ERROR_COMMON_INVALID_PARAMETER;
          (errorCode, yield, s1) =
            (if queueHandle \<noteq> NULL \<and> pEventData \<noteq> NULL
             then
               let errorCode = U_ERROR_COMMON_PLATFORM;
                   (r, s') = invoke P (xQueueSendFromISR queueHandle pEventData) s
               in if ret r = pdTRUE
                  then (U_ERROR_COMMON_SUCCESS, yield_of r, s')
                  else (errorCode, yield_of r, s')
             else (errorCode, yield, s));
          s2 = (if yield \<noteq> 0 then snd (invoke P taskYIELD s1) else s1)
      in (errorCode, s2))"

definition uPortQueueReceive :: "platform \<Rightarrow> ptr \<Rightarrow> ptr \<Rightarrow> os_state \<Rightarrow> int32_t \<times> os_state" where
  "uPortQueueReceive P queueHandle pEventData s =
     (let errorCode = U_ERROR_COMMON_INVALID_PARAMETER in
      if queueHandle \<noteq> NULL \<and> pEventData \<noteq> NULL
      then
        let errorCode = U_ERROR_COMMON_PLATFORM;
            (r, s1) = invoke P (xQueueReceive queueHandle pEventData portMAX_DELAY) s
        in if ret r = pdTRUE then (U_ERROR_COMMON_SUCCESS, s1) else (errorCode, s1)
      else (errorCode, s))"

definition uPortQueueReceiveIrq ::
  "platform \<Rightarrow> ptr \<Rightarrow> ptr \<Rightarrow> os_state \<Rightarrow> int32_t \<times> os_state" where
  "uPortQueueReceiveIrq P queueHandle pEventData s =
     (let errorCode = U_ERROR_COMMON_INVALID_PARAMETER in
      if queueHandle \<noteq> NULL \<and> pEventData \<noteq> NULL
      then
        let errorCode = U_ERROR_COMMON_PLATFORM;
            (r, s1) = invoke P (xQueueReceiveFromISR queueHandle pEventData NULL) s
        in if ret r = pdTRUE then (U_ERROR_COMMON_SUCCESS, s1) else (errorCode, s1)
      else (errorCode, s))"

definition uPortQueueTryReceive ::
  "cfg \<Rightarrow> platform \<Rightarrow> ptr \<Rightarrow> int32_t \<Rightarrow> ptr \<Rightarrow> os_state \<Rightarrow> int32_t \<times> os_state" where
  "uPortQueueTryReceive C P queueHandle waitMs pEventData s =
     (let errorCode = U_ERROR_COMMON_INVALID_PARAMETER in
      if queueHandle \<noteq> NULL \<and> pEventData \<noteq> NULL
      then
        let errorCode = U_ERROR_COMMON_TIMEOUT;
            (r, s1) = invoke P (xQueueReceive queueHandle pEventData
                                  (waitMs div portTICK_PERIOD_MS C)) s
        in if ret r = pdTRUE then (U_ERROR_COMMON_SUCCESS, s1) else (errorCode, s1)
      else (errorCode, s))"

definition uPortQueuePeek :: "platform \<Rightarrow> ptr \<Rightarrow> ptr \<Rightarrow> os_state \<Rightarrow> int32_t \<times> os_state" where
  "uPortQueuePeek P queueHandle pEventData s =
     (let errorCode = U_ERROR_COMMON_INVALID_PARAMETER in
      if queueHandle \<noteq> NULL \<and> pEventData \<noteq> NULL
      then
        let errorCode = U_ERROR_COMMON_TIMEOUT;
            (r, s1) = invoke P (xQueuePeek queueHandle pEventData portMAX_DELAY) s
        in if ret r = pdTRUE then (U_ERROR_COMMON_SUCCESS, s1) else (errorCode, s1)
      else (errorCode, s))"

definition uPortQueueGetFree :: "platform \<Rightarrow> ptr \<Rightarrow> os_state \<Rightarrow> int32_t \<times> os_state" where
  "uPortQueueGetFree P queueHandle s =
     (let errorCodeOrFree = U_ERROR_COMMON_INVALID_PARAMETER in
      if queueHandle \<noteq> NULL
      then let (r, s1) = invoke P (uxQueueSpacesAvailable queueHandle) s in (ret r, s1)
      else (errorCodeOrFree, s))"

subsection \<open>Mutexes\<close>

text \<open>
  The \<^verbatim>\<open>MTX_FN\<close> macro only puts an underscore before the names when the mutex debug
  functions are built in; the bodies are the same.
\<close>

definition uPortMutexCreate :: "platform \<Rightarrow> ptr \<Rightarrow> os_state \<Rightarrow> int32_t \<times> os_state" where
  "uPortMutexCreate P pMutexHandle s =
     (let errorCode = U_ERROR_COMMON_INVALID_PARAMETER in
      if pMutexHandle \<noteq> NULL
      then
        let errorCode = U_ERROR_COMMON_PLATFORM;
            (r, s1) = invoke P xSemaphoreCreateMutex s;
            s2 = s1\<lparr>mem := (mem s1)(pMutexHandle := ret r)\<rparr>
        in if mem s2 pMutexHandle \<noteq> NULL
           then (U_ERROR_COMMON_SUCCESS, U_ATOMIC_INCREMENT s2)
           else (errorCode, s2)
      else (errorCode, s))"

definition uPortMutexDelete :: "platform \<Rightarrow> ptr \<Rightarrow> os_state \<Rightarrow> int32_t \<times> os_state" where
  "uPortMutexDelete P mutexHandle s =
     (let errorCode = U_ERROR_COMMON_INVALID_PARAMETER in
      if mutexHandle \<noteq> NULL
      then
        let (r, s1) = invoke P (vSemaphoreDelete mutexHandle) s
        in (U_ERROR_COMMON_SUCCESS, U_ATOMIC_DECREMENT s1)
      else (errorCode, s))"

definition uPortMutexLock :: "platform \<Rightarrow> ptr \<Rightarrow> os_state \<Rightarrow> int32_t \<times> os_state" where
  "uPortMutexLock P mutexHandle s =
     (let errorCode = U_ERROR_COMMON_INVALID_PARAMETER in
      if mutexHandle \<noteq> NULL
      then
        let errorCode = U_ERROR_COMMON_PLATFORM;
            (r, s1) = invoke P (xSemaphoreTake mutexHandle portMAX_DELAY) s
        in if ret r = pdTRUE then (U_ERROR_COMMON_SUCCESS, s1) else (errorCode, s1)
      else (errorCode, s))"

definition uPortMutexTryLock ::
  "cfg \<Rightarrow> platform \<Rightarrow> ptr \<Rightarrow> int32_t \<Rightarrow> os_state \<Rightarrow> int32_t \<times> os_state" where
  "uPortMutexTryLock C P mutexHandle delayMs s =
     (let errorCode = U_ERROR_COMMON_INVALID_PARAMETER in
      if mutexHandle \<noteq> NULL
      then
        let errorCode = U_ERROR_COMMON_TIMEOUT;
            (r, s1) = invoke P (xSemaphoreTake mutexHandle
                                  (delayMs div portTICK_PERIOD_MS C)) s
        in if ret r = pdTRUE then (U_ERROR_COMMON_SUCCESS, s1) else (errorCode, s1)
      else (errorCode, s))"

definition uPortMutexUnlock :: "platform \<Rightarrow> ptr \<Rightarrow> os_state \<Rightarrow> int32_t \<times> os_state" where
  "uPortMutexUnlock P mutexHandle s =
     (let errorCode = U_ERROR_COMMON_INVALID_PARAMETER in
      if mutexHandle \<noteq> NULL
      then
        let (r, s1) = invoke P (xSemaphoreGive mutexHandle) s
        in (U_ERROR_COMMON_SUCCESS, s1)
      else (errorCode, s))"

subsection \<open>Semaphores\<close>

definition uPortSemaphoreCreate ::
  "platform \<Rightarrow> ptr \<Rightarrow> uint32_t \<Rightarrow> uint32_t \<Rightarrow> os_state \<Rightarrow> int32_t \<times> os_state" where
  "uPortSemaphoreCreate P pSemaphoreHandle initialCount limit s =
     (let errorCode = U_ERROR_COMMON_INVALID_PARAMETER in
      if pSemaphoreHandle \<noteq> NULL \<and> limit \<noteq> 0 \<and> initialCount \<le> limit
      then
        let errorCode = U_ERROR_COMMON_PLATFORM;
            (r, s1) = invoke P (xSemaphoreCreateCounting limit initialCount) s;
            s2 = s1\<lparr>mem := (mem s1)(pSemaphoreHandle := ret r)\<rparr>
        in if mem s2 pSemaphoreHandle \<noteq> NULL
           then (U_ERROR_COMMON_SUCCESS, U_ATOMIC_INCREMENT s2)
           else (errorCode, s2)
      else (errorCode, s))"

definition uPortSemaphoreDelete :: "platform \<Rightarrow> ptr \<Rightarrow> os_state \<Rightarrow> int32_t \<times> os_state" where
  "uPortSemaphoreDelete P semaphoreHandle s =
     (let errorCode = U_ERROR_COMMON_INVALID_PARAMETER in
      if semaphoreHandle \<noteq> NULL
      then
        let (r, s1) = invoke P (vSemaphoreDelete semaphoreHandle) s
        in (U_ERROR_COMMON_SUCCESS, U_ATOMIC_DECREMENT s1)
      else (errorCode, s))"

definition uPortSemaphoreTake :: "platform \<Rightarrow> ptr \<Rightarrow> os_state \<Rightarrow> int32_t \<times> os_state" where
  "uPortSemaphoreTake P semaphoreHandle s =
     (let errorCode = U_ERROR_COMMON_INVALID_PARAMETER in
      if semaphoreHandle \<noteq> NULL
      then
        let errorCode = U_ERROR_COMMON_PLATFORM;
            (r, s1) = invoke P (xSemaphoreTake semaphoreHandle portMAX_DELAY) s
        in if ret r = pdTRUE then (U_ERROR_COMMON_SUCCESS, s1) else (errorCode, s1)
      else (errorCode, s))"

definition uPortSemaphoreTryTake ::
  "cfg \<Rightarrow> platform \<Rightarrow> ptr \<Rightarrow> int32_t \<Rightarrow> os_state \<Rightarrow> int32_t \<times> os_state" where
  "uPortSemaphoreTryTake C P semaphoreHandle delayMs s =
     (let errorCode = U_ERROR_COMMON_INVALID_PARAMETER in
      if semaphoreHandle \<noteq> NULL
      then
        let errorCode = U_ERROR_COMMON_TIMEOUT;
            (r, s1) = invoke P (xSemaphoreTake semaphoreHandle
                                  (delayMs div portTICK_PERIOD_MS C)) s
        in if ret r = pdTRUE then (U_ERROR_COMMON_SUCCESS, s1) else (errorCode, s1)
      else (errorCode, s))"

definition uPortSemaphoreGive :: "platform \<Rightarrow> ptr \<Rightarrow> os_state \<Rightarrow> int32_t \<times> os_state" where
  "uPortSemaphoreGive P semaphoreHandle s =
     (let errorCode = U_ERROR_COMMON_INVALID_PARAMETER in
      if semaphoreHandle \<noteq> NULL
      then
        let (r, s1) = invoke P (xSemaphoreGive semaphoreHandle) s
        in (U_ERROR_COMMON_SUCCESS, s1)
      else (errorCode, s))"

definition uPortSemaphoreGiveIrq :: "platform \<Rightarrow> ptr \<Rightarrow> os_state \<Rightarrow> int32_t \<times> os_state" where
  "uPortSemaphoreGiveIrq P semaphoreHandle s =
     (let yield = 0;
          errorCode = U_ERROR_COMMON_INVALID_PARAMETER;
          (errorCode, yield, s1) =
            (if semaphoreHandle \<noteq> NULL
             then
               let errorCode = U_ERROR_COMMON_PLATFORM;
                   (r, s') = invoke P (xSemaphoreGiveFromISR semaphoreHandle) s
               in if ret r = pdTRUE
                  then (U_ERROR_COMMON_SUCCESS, yield_of r, s')
                  else (errorCode, yield_of r, s')
             else (errorCode, yield, s));
          s2 = (if yield \<noteq> 0 then snd (invoke P taskYIELD s1) else s1)
      in (errorCode, s2))"

subsection \<open>Timers\<close>

definition uPortTimerCreate ::
  "platform \<Rightarrow> ptr \<Rightarrow> ptr \<Rightarrow> ptr \<Rightarrow> ptr \<Rightarrow> uint32_t \<Rightarrow> bool \<Rightarrow> os_state
     \<Rightarrow> int32_t \<times> os_state" where
  "uPortTimerCreate P pTimerHandle pName pCallback pCallbackParam intervalMs periodic s =
     (let (r, s1) = invoke P (uPortPrivateTimerCreate pTimerHandle pName pCallback
                                pCallbackParam intervalMs periodic) s;
          s2 = store_out pTimerHandle (out r) s1;
          errorCode = ret r
      in if errorCode = 0 then (errorCode, U_ATOMIC_INCREMENT s2) else (errorCode, s2))"

definition uPortTimerDelete :: "platform \<Rightarrow> ptr \<Rightarrow> os_state \<Rightarrow> int32_t \<times> os_state" where
  "uPortTimerDelete P timerHandle s =
     (let (r, s1) = invoke P (uPortPrivateTimerDelete timerHandle) s;
          errorCode = ret r
      in if errorCode = 0 then (errorCode, U_ATOMIC_DECREMENT s1) else (errorCode, s1))"

definition uPortTimerStart :: "platform \<Rightarrow> ptr \<Rightarrow> os_state \<Rightarrow> int32_t \<times> os_state" where
  "uPortTimerStart P timerHandle s =
     (let errorCode = U_ERROR_COMMON_PLATFORM;
          (r, s1) = invoke P (xTimerStart timerHandle portMAX_DELAY) s
      in if ret r = pdPASS then (U_ERROR_COMMON_SUCCESS, s1) else (errorCode, s1))"

definition uPortTimerStop :: "platform \<Rightarrow> ptr \<Rightarrow> os_state \<Rightarrow> int32_t \<times> os_state" where
  "uPortTimerStop P timerHandle s =
     (let errorCode = U_ERROR_COMMON_PLATFORM;
          (r, s1) = invoke P (xTimerStop timerHandle portMAX_DELAY) s
      in if ret r = pdPASS then (U_ERROR_COMMON_SUCCESS, s1) else (errorCode, s1))"

definition uPortTimerChange ::
  "cfg \<Rightarrow> platform \<Rightarrow> ptr \<Rightarrow> uint32_t \<Rightarrow> os_state \<Rightarrow> int32_t \<times> os_state" where
  "uPortTimerChange C P timerHandle intervalMs s =
     (let errorCode = U_ERROR_COMMON_PLATFORM;
          (r, s1) = invoke P (xTimerChangePeriod timerHandle
                                (intervalMs div portTICK_PERIOD_MS C) portMAX_DELAY) s
      in if ret r = pdPASS then (U_ERROR_COMMON_SUCCESS, s1) else (errorCode, s1))"

subsection \<open>Monitoring\<close>

definition uPortOsResourceAllocCount :: "os_state \<Rightarrow> int32_t" where
  "uPortOsResourceAllocCount s = U_ATOMIC_GET s"

subsection \<open>Sequences of calls\<close>

text \<open>
  A caller's call of one of the functions above that return an \<^verbatim>\<open>int32_t\<close>, with its
  arguments. \<open>step\<close> runs one call, \<open>run\<close> a list of them in order, keeping each call
  with the value it returned.
\<close>

datatype os_call =
    TaskCreate ptr ptr size_t ptr int32_t ptr
  | TaskDelete ptr
  | TaskStackMinFree ptr
  | TaskGetHandle ptr
  | QueueCreate size_t size_t ptr
  | QueueDelete ptr
  | QueueSend ptr ptr
  | QueueSendIrq ptr ptr
  | QueueReceive ptr ptr
  | QueueReceiveIrq ptr ptr
  | QueueTryReceive ptr int32_t ptr
  | QueuePeek ptr ptr
  | QueueGetFree ptr
  | MutexCreate ptr
  | MutexDelete ptr
  | MutexLock ptr
  | MutexTryLock ptr int32_t
  | MutexUnlock ptr
  | SemaphoreCreate ptr uint32_t uint32_t
  | SemaphoreDelete ptr
  | SemaphoreTake ptr
  | SemaphoreTryTake ptr int32_t
  | SemaphoreGive ptr
  | SemaphoreGiveIrq ptr
  | TimerCreate ptr ptr ptr ptr uint32_t bool
  | TimerDelete ptr
  | TimerStart ptr
  | TimerStop ptr
  | TimerChange ptr uint32_t

fun step :: "cfg \<Rightarrow> platform \<Rightarrow> os_call \<Rightarrow> os_state \<Rightarrow> int32_t \<times> os_state" where
  "step C P (TaskCreate f n sz a pr h) s = uPortTaskCreate C P f n sz a pr h s"
| "step C P (TaskDelete h) s = uPortTaskDelete P h s"
| "step C P (TaskStackMinFree h) s = uPortTaskStackMinFree P h s"
| "step C P (TaskGetHandle p) s = uPortTaskGetHandle P p s"
| "step C P (QueueCreate n sz p) s = uPortQueueCreate P n sz p s"
| "step C P (QueueDelete h) s = uPortQueueDelete P h s"
| "step C P (QueueSend h d) s = uPortQueueSend P h d s"
| "step C P (QueueSendIrq h d) s = uPortQueueSendIrq P h d s"
| "step C P (QueueReceive h d) s = uPortQueueReceive P h d s"
| "step C P (QueueReceiveIrq h d) s = uPortQueueReceiveIrq P h d s"
| "step C P (QueueTryReceive h w d) s = uPortQueueTryReceive C P h w d s"
| "step C P (QueuePeek h d) s = uPortQueuePeek P h d s"
| "step C P (QueueGetFree h) s = uPortQueueGetFree P h s"
| "step C P (MutexCreate p) s = uPortMutexCreate P p s"
| "step C P (MutexDelete h) s = uPortMutexDelete P h s"
| "step C P (MutexLock h) s = uPortMutexLock P h s"
| "step C P (MutexTryLock h w) s = uPortMutexTryLock C P h w s"
| "step C P (MutexUnlock h) s = uPortMutexUnlock P h s"
| "step C P (SemaphoreCreate p i l) s = uPortSemaphoreCreate P p i l s"
| "step C P (SemaphoreDelete h) s = uPortSemaphoreDelete P h s"
| "step C P (SemaphoreTake h) s = uPortSemaphoreTake P h s"
| "step C P (SemaphoreTryTake h w) s = uPortSemaphoreTryTake C P h w s"
| "step C P (SemaphoreGive h) s = uPortSemaphoreGive P h s"
| "step C P (SemaphoreGiveIrq h) s = uPortSemaphoreGiveIrq P h s"
| "step C P (TimerCreate p n cb a i pe) s = uPortTimerCreate P p n cb a i pe s"
| "step C P (TimerDelete h) s = uPortTimerDelete P h s"
| "step C P (TimerStart h) s = uPortTimerStart P h s"
| "step C P (TimerStop h) s = uPortTimerStop P h s"
| "step C P (TimerChange h i) s = uPortTimerChange C P h i s"

fun run ::
  "cfg \<Rightarrow> platform \<Rightarrow> os_call list \<Rightarrow> os_state \<Rightarrow> (os_call \<times> int32_t) list \<times> os_state" where
  "run C P [] s = ([], s)"
| "run C P (c # cs) s =
     (let (e, s1) = step C P c s;
          (log, s2) = run C P cs s1
      in ((c, e) # log, s2))"

text \<open>
  The create and the destroy operations of the five kinds of primitive, and the number of
  calls of a log that are creates, or destroys, and returned success.
\<close>

fun is_create :: "os_call \<Rightarrow> bool" where
  "is_create (TaskCreate f n sz a pr h) = True"
| "is_create (QueueCreate n sz p) = True"
| "is_create (MutexCreate p) = True"
| "is_create (SemaphoreCreate p i l) = True"
| "is_create (TimerCreate p n cb a i pe) = True"
| "is_create c = False"

fun is_destroy :: "os_call \<Rightarrow> bool" where
  "is_destroy (TaskDelete h) = True"
| "is_destroy (QueueDelete h) = True"
| "is_destroy (MutexDelete h) = True"
| "is_destroy (SemaphoreDelete h) = True"
| "is_destroy (TimerDelete h) = True"
| "is_destroy c = False"

definition created :: "(os_call \<times> int32_t) list \<Rightarrow> nat" where
  "created log =
     length (filter (\<lambda>(c, e). is_create c \<and> e = U_ERROR_COMMON_SUCCESS) log)"

definition destroyed :: "(os_call \<times> int32_t) list \<Rightarrow> nat" where
  "destroyed log =
     length (filter (\<lambda>(c, e). is_destroy c \<and> e = U_ERROR_COMMON_SUCCESS) log)"

subsection \<open>Waiting, and a platform for the examples\<close>

text \<open>
  The time a platform call may wait, for the calls that take one: the
  \<^verbatim>\<open>xTicksToWait\<close> argument of the FreeRTOS prototypes, and the delay of
  \<^verbatim>\<open>vTaskDelay\<close>. The interrupt entry points have no such argument.
\<close>

fun xTicksToWait :: "pcall \<Rightarrow> TickType_t option" where
  "xTicksToWait (vTaskDelay t) = Some t"
| "xTicksToWait (xQueueSend q d t) = Some t"
| "xTicksToWait (xQueueReceive q d t) = Some t"
| "xTicksToWait (xQueuePeek q d t) = Some t"
| "xTicksToWait (xSemaphoreTake h t) = Some t"
| "xTicksToWait (xTimerStart h t) = Some t"
| "xTicksToWait (xTimerStop h t) = Some t"
| "xTicksToWait (xTimerChangePeriod h n t) = Some t"
| "xTicksToWait c = None"

text \<open>
  The platform of the examples answers every call with the same value and stores nothing
  through an output pointer.
\<close>

definition answering :: "32 word \<Rightarrow> platform" where
  "answering v h c = \<lparr>ret = v, out = None\<rparr>"

text \<open>
  A platform whose queue is full at first: it refuses every call until \<open>n\<close> calls have
  been made, and accepts from then on.
\<close>

definition full_for :: "nat \<Rightarrow> platform" where
  "full_for n h c = \<lparr>ret = (if length h < n then 0 else 1), out = None\<rparr>"

section \<open>Properties\<close>

lemmas code_defs = U_ERROR_COMMON_SUCCESS_def U_ERROR_COMMON_INVALID_PARAMETER_def
  U_ERROR_COMMON_PLATFORM_def U_ERROR_COMMON_TIMEOUT_def

lemmas fn_defs = uPortTaskCreate_def uPortTaskDelete_def uPortTaskStackMinFree_def
  uPortTaskGetHandle_def uPortQueueCreate_def uPortQueueDelete_def uPortQueueSend_def
  uPortQueueSendIrq_def uPortQueueReceive_def uPortQueueReceiveIrq_def
  uPortQueueTryReceive_def uPortQueuePeek_def uPortQueueGetFree_def uPortMutexCreate_def
  uPortMutexDelete_def uPortMutexLock_def uPortMutexTryLock_def uPortMutexUnlock_def
  uPortSemaphoreCreate_def uPortSemaphoreDelete_def uPortSemaphoreTake_def
  uPortSemaphoreTryTake_def uPortSemaphoreGive_def uPortSemaphoreGiveIrq_def
  uPortTimerCreate_def uPortTimerDelete_def uPortTimerStart_def uPortTimerStop_def
  uPortTimerChange_def

lemmas eval_defs = fn_defs Let_def invoke_def U_ATOMIC_INCREMENT_def U_ATOMIC_DECREMENT_def
  code_defs NULL_def pdTRUE_def pdPASS_def portMAX_DELAY_def answering_def os_init_def
  store_out_def yield_of_def stm32f4_cfg_def uPortOsResourceAllocCount_def U_ATOMIC_GET_def

lemma codes_distinct:
  "U_ERROR_COMMON_INVALID_PARAMETER \<noteq> U_ERROR_COMMON_SUCCESS"
  "U_ERROR_COMMON_PLATFORM \<noteq> U_ERROR_COMMON_SUCCESS"
  "U_ERROR_COMMON_TIMEOUT \<noteq> U_ERROR_COMMON_SUCCESS"
  "U_ERROR_COMMON_INVALID_PARAMETER \<noteq> U_ERROR_COMMON_PLATFORM"
  "U_ERROR_COMMON_INVALID_PARAMETER \<noteq> U_ERROR_COMMON_TIMEOUT"
  "U_ERROR_COMMON_PLATFORM \<noteq> U_ERROR_COMMON_TIMEOUT"
  by (simp_all add: code_defs)

subsection \<open>Resource accounting\<close>

lemma store_out_count [simp]:
  "gResourceAllocCount (store_out p v s) = gResourceAllocCount s"
  by (simp add: store_out_def split: option.splits)

text \<open>
  One call: the counter goes up by one when the call is a create that returned success,
  down by one when it is a destroy that returned success, and stays as it was otherwise.
\<close>

lemma step_counter:
  "gResourceAllocCount (snd (step C P c s)) =
     gResourceAllocCount s
       + (if is_create c \<and> fst (step C P c s) = U_ERROR_COMMON_SUCCESS then 1 else 0)
       - (if is_destroy c \<and> fst (step C P c s) = U_ERROR_COMMON_SUCCESS then 1 else 0)"
  by (cases c)
     (simp_all add: fn_defs Let_def invoke_def U_ATOMIC_INCREMENT_def U_ATOMIC_DECREMENT_def
        codes_distinct code_defs split: prod.splits)

lemma created_Cons:
  "created ((c, e) # log) =
     (if is_create c \<and> e = U_ERROR_COMMON_SUCCESS then 1 else 0) + created log"
  by (simp add: created_def)

lemma destroyed_Cons:
  "destroyed ((c, e) # log) =
     (if is_destroy c \<and> e = U_ERROR_COMMON_SUCCESS then 1 else 0) + destroyed log"
  by (simp add: destroyed_def)

lemma run_Cons:
  "run C P (c # cs) s =
     ((c, fst (step C P c s)) # fst (run C P cs (snd (step C P c s))),
      snd (run C P cs (snd (step C P c s))))"
  by (simp add: Let_def split: prod.splits)

lemma run_counter:
  "gResourceAllocCount (snd (run C P cs s)) =
     gResourceAllocCount s + of_nat (created (fst (run C P cs s)))
       - of_nat (destroyed (fst (run C P cs s)))"
proof (induction cs arbitrary: s)
  case Nil
  show ?case by (simp add: created_def destroyed_def)
next
  case (Cons c cs)
  show ?case
    unfolding run_Cons fst_conv snd_conv created_Cons destroyed_Cons
    by (simp add: Cons.IH step_counter)
qed

text \<open>The log of the first \<open>n\<close> calls is the first \<open>n\<close> entries of the whole log.\<close>

lemma run_take: "fst (run C P (take n cs) s) = take n (fst (run C P cs s))"
proof (induction cs arbitrary: n s)
  case Nil
  show ?case by simp
next
  case (Cons c cs)
  show ?case
  proof (cases n)
    case 0
    then show ?thesis by simp
  next
    case (Suc m)
    show ?thesis unfolding Suc take_Suc_Cons run_Cons fst_conv by (simp add: Cons.IH)
  qed
qed

lemma sint_of_int_in_range:
  "- (2 ^ 31) \<le> d \<Longrightarrow> d < 2 ^ 31 \<Longrightarrow> sint (word_of_int d :: 32 word) = d"
  by (simp add: sint_sbintrunc' signed_take_bit_int_eq_self)

text \<open>
  C1. For every platform and every sequence of calls, of creates and destroys of any kind
  and of the other operations too: each call moves the counter by one exactly when it is a
  create or a destroy that returned success; and, starting from the counter's initial
  zero, after each number \<open>n\<close> of calls the value read by \<open>uPortOsResourceAllocCount\<close> is
  the number of creates that returned success minus the number of destroys that returned
  success among these \<open>n\<close> calls. The counter is an \<^verbatim>\<open>int32_t\<close>: the equation holds in
  32-bit arithmetic, and for the signed value read whenever the difference is an
  \<^verbatim>\<open>int32_t\<close>.
\<close>

theorem resource_counter_is_created_minus_destroyed:
  "gResourceAllocCount (snd (step C P c s)) =
     gResourceAllocCount s
       + (if is_create c \<and> fst (step C P c s) = U_ERROR_COMMON_SUCCESS then 1 else 0)
       - (if is_destroy c \<and> fst (step C P c s) = U_ERROR_COMMON_SUCCESS then 1 else 0)
   \<and> uPortOsResourceAllocCount (snd (run C P (take n cs) os_init)) =
       word_of_int (int (created (take n (fst (run C P cs os_init))))
                      - int (destroyed (take n (fst (run C P cs os_init)))))
   \<and> (- (2 ^ 31) \<le> int (created (take n (fst (run C P cs os_init))))
                      - int (destroyed (take n (fst (run C P cs os_init))))
      \<and> int (created (take n (fst (run C P cs os_init))))
                      - int (destroyed (take n (fst (run C P cs os_init)))) < 2 ^ 31
      \<longrightarrow> sint (uPortOsResourceAllocCount (snd (run C P (take n cs) os_init))) =
            int (created (take n (fst (run C P cs os_init))))
              - int (destroyed (take n (fst (run C P cs os_init)))))"
proof -
  let ?log = "take n (fst (run C P cs os_init))"
  let ?d = "int (created ?log) - int (destroyed ?log)"
  have "gResourceAllocCount os_init = 0"
    by (simp add: os_init_def)
  then have eq: "uPortOsResourceAllocCount (snd (run C P (take n cs) os_init)) = word_of_int ?d"
    unfolding uPortOsResourceAllocCount_def U_ATOMIC_GET_def
    by (simp add: run_counter [of C P "take n cs" os_init] run_take)
  have "- (2 ^ 31) \<le> ?d \<and> ?d < 2 ^ 31 \<longrightarrow> sint (word_of_int ?d :: 32 word) = ?d"
    using sint_of_int_in_range by blast
  with eq step_counter show ?thesis by simp
qed

text \<open>
  Five calls on a platform that answers 1 to everything: a queue and a mutex are created,
  the queue is deleted, the timer is refused (a non-zero answer) and the delete of a null
  queue handle is refused. Two creates and one destroy succeeded, and the counter reads 1.
\<close>

theorem resource_counter_witness:
  "sint (uPortOsResourceAllocCount (snd (run stm32f4_cfg (answering 1)
        [QueueCreate 4 8 0x3FFB0000, MutexCreate 0x3FFB0004, QueueDelete 1,
         TimerCreate 0x3FFB0008 0 0x400D0000 0 1000 True, QueueDelete 0] os_init))) = 1
   \<and> created (fst (run stm32f4_cfg (answering 1)
        [QueueCreate 4 8 0x3FFB0000, MutexCreate 0x3FFB0004, QueueDelete 1,
         TimerCreate 0x3FFB0008 0 0x400D0000 0 1000 True, QueueDelete 0] os_init)) = 2
   \<and> destroyed (fst (run stm32f4_cfg (answering 1)
        [QueueCreate 4 8 0x3FFB0000, MutexCreate 0x3FFB0004, QueueDelete 1,
         TimerCreate 0x3FFB0008 0 0x400D0000 0 1000 True, QueueDelete 0] os_init)) = 1"
  using resource_counter_is_created_minus_destroyed [of stm32f4_cfg "answering 1"
      "QueueDelete 0" os_init 5
      "[QueueCreate 4 8 0x3FFB0000, MutexCreate 0x3FFB0004, QueueDelete 1,
         TimerCreate 0x3FFB0008 0 0x400D0000 0 1000 True, QueueDelete 0]"]
  by (simp add: eval_defs created_def destroyed_def)

subsection \<open>When an operation returns success\<close>

text \<open>
  For each operation that looks at what the platform returned: it returns success exactly
  when its parameters pass its checks and the platform call succeeded. The two operations
  on \<^verbatim>\<open>xSemaphoreGive\<close> do not look at what it returned.
\<close>

lemma uPortTaskCreate_success:
  "(fst (uPortTaskCreate C P f n sz a pr ph s) = U_ERROR_COMMON_SUCCESS) =
     (f \<noteq> NULL \<and> ph \<noteq> NULL \<and> sint (U_CFG_OS_PRIORITY_MIN C) \<le> sint pr
      \<and> sint pr \<le> sint (U_CFG_OS_PRIORITY_MAX C)
      \<and> ret (P (trace s) (xTaskCreate f n sz a pr ph)) = pdPASS)"
  by (auto simp add: uPortTaskCreate_def Let_def invoke_def codes_distinct)

lemma uPortQueueCreate_success:
  "(fst (uPortQueueCreate P len sz p s) = U_ERROR_COMMON_SUCCESS) =
     (p \<noteq> NULL \<and> ret (P (trace s) (xQueueCreate len sz)) \<noteq> NULL)"
  by (simp add: uPortQueueCreate_def Let_def invoke_def codes_distinct split: prod.splits)

lemma uPortQueueSend_success:
  "(fst (uPortQueueSend P q d s) = U_ERROR_COMMON_SUCCESS) =
     (q \<noteq> NULL \<and> d \<noteq> NULL \<and> ret (P (trace s) (xQueueSend q d portMAX_DELAY)) = pdTRUE)"
  by (simp add: uPortQueueSend_def Let_def invoke_def codes_distinct split: prod.splits)

lemma uPortQueueSendIrq_success:
  "(fst (uPortQueueSendIrq P q d s) = U_ERROR_COMMON_SUCCESS) =
     (q \<noteq> NULL \<and> d \<noteq> NULL \<and> ret (P (trace s) (xQueueSendFromISR q d)) = pdTRUE)"
  by (simp add: uPortQueueSendIrq_def Let_def invoke_def codes_distinct split: prod.splits)

lemma uPortQueueReceive_success:
  "(fst (uPortQueueReceive P q d s) = U_ERROR_COMMON_SUCCESS) =
     (q \<noteq> NULL \<and> d \<noteq> NULL \<and> ret (P (trace s) (xQueueReceive q d portMAX_DELAY)) = pdTRUE)"
  by (simp add: uPortQueueReceive_def Let_def invoke_def codes_distinct split: prod.splits)

lemma uPortQueueReceiveIrq_success:
  "(fst (uPortQueueReceiveIrq P q d s) = U_ERROR_COMMON_SUCCESS) =
     (q \<noteq> NULL \<and> d \<noteq> NULL \<and> ret (P (trace s) (xQueueReceiveFromISR q d NULL)) = pdTRUE)"
  by (simp add: uPortQueueReceiveIrq_def Let_def invoke_def codes_distinct split: prod.splits)

lemma uPortQueueTryReceive_success:
  "(fst (uPortQueueTryReceive C P q w d s) = U_ERROR_COMMON_SUCCESS) =
     (q \<noteq> NULL \<and> d \<noteq> NULL
      \<and> ret (P (trace s) (xQueueReceive q d (w div portTICK_PERIOD_MS C))) = pdTRUE)"
  by (simp add: uPortQueueTryReceive_def Let_def invoke_def codes_distinct split: prod.splits)

lemma uPortQueuePeek_success:
  "(fst (uPortQueuePeek P q d s) = U_ERROR_COMMON_SUCCESS) =
     (q \<noteq> NULL \<and> d \<noteq> NULL \<and> ret (P (trace s) (xQueuePeek q d portMAX_DELAY)) = pdTRUE)"
  by (simp add: uPortQueuePeek_def Let_def invoke_def codes_distinct split: prod.splits)

lemma uPortMutexCreate_success:
  "(fst (uPortMutexCreate P p s) = U_ERROR_COMMON_SUCCESS) =
     (p \<noteq> NULL \<and> ret (P (trace s) xSemaphoreCreateMutex) \<noteq> NULL)"
  by (simp add: uPortMutexCreate_def Let_def invoke_def codes_distinct split: prod.splits)

lemma uPortMutexLock_success:
  "(fst (uPortMutexLock P h s) = U_ERROR_COMMON_SUCCESS) =
     (h \<noteq> NULL \<and> ret (P (trace s) (xSemaphoreTake h portMAX_DELAY)) = pdTRUE)"
  by (simp add: uPortMutexLock_def Let_def invoke_def codes_distinct split: prod.splits)

lemma uPortMutexTryLock_success:
  "(fst (uPortMutexTryLock C P h w s) = U_ERROR_COMMON_SUCCESS) =
     (h \<noteq> NULL \<and> ret (P (trace s) (xSemaphoreTake h (w div portTICK_PERIOD_MS C))) = pdTRUE)"
  by (simp add: uPortMutexTryLock_def Let_def invoke_def codes_distinct split: prod.splits)

lemma uPortSemaphoreCreate_success:
  "(fst (uPortSemaphoreCreate P p i l s) = U_ERROR_COMMON_SUCCESS) =
     (p \<noteq> NULL \<and> l \<noteq> 0 \<and> i \<le> l
      \<and> ret (P (trace s) (xSemaphoreCreateCounting l i)) \<noteq> NULL)"
  by (simp add: uPortSemaphoreCreate_def Let_def invoke_def codes_distinct split: prod.splits)

lemma uPortSemaphoreTake_success:
  "(fst (uPortSemaphoreTake P h s) = U_ERROR_COMMON_SUCCESS) =
     (h \<noteq> NULL \<and> ret (P (trace s) (xSemaphoreTake h portMAX_DELAY)) = pdTRUE)"
  by (simp add: uPortSemaphoreTake_def Let_def invoke_def codes_distinct split: prod.splits)

lemma uPortSemaphoreTryTake_success:
  "(fst (uPortSemaphoreTryTake C P h w s) = U_ERROR_COMMON_SUCCESS) =
     (h \<noteq> NULL \<and> ret (P (trace s) (xSemaphoreTake h (w div portTICK_PERIOD_MS C))) = pdTRUE)"
  by (simp add: uPortSemaphoreTryTake_def Let_def invoke_def codes_distinct split: prod.splits)

lemma uPortSemaphoreGiveIrq_success:
  "(fst (uPortSemaphoreGiveIrq P h s) = U_ERROR_COMMON_SUCCESS) =
     (h \<noteq> NULL \<and> ret (P (trace s) (xSemaphoreGiveFromISR h)) = pdTRUE)"
  by (simp add: uPortSemaphoreGiveIrq_def Let_def invoke_def codes_distinct split: prod.splits)

lemma uPortTimerCreate_result:
  "fst (uPortTimerCreate P p n cb a i pe s) =
       ret (P (trace s) (uPortPrivateTimerCreate p n cb a i pe))"
  by (simp add: uPortTimerCreate_def Let_def invoke_def codes_distinct split: prod.splits)

lemma uPortTimerDelete_result:
  "fst (uPortTimerDelete P h s) = ret (P (trace s) (uPortPrivateTimerDelete h))"
  by (simp add: uPortTimerDelete_def Let_def invoke_def codes_distinct split: prod.splits)

lemma uPortTimerStart_success:
  "(fst (uPortTimerStart P h s) = U_ERROR_COMMON_SUCCESS) =
     (ret (P (trace s) (xTimerStart h portMAX_DELAY)) = pdPASS)"
  by (simp add: uPortTimerStart_def Let_def invoke_def codes_distinct split: prod.splits)

lemma uPortTimerStop_success:
  "(fst (uPortTimerStop P h s) = U_ERROR_COMMON_SUCCESS) =
     (ret (P (trace s) (xTimerStop h portMAX_DELAY)) = pdPASS)"
  by (simp add: uPortTimerStop_def Let_def invoke_def codes_distinct split: prod.splits)

lemma uPortTimerChange_success:
  "(fst (uPortTimerChange C P h i s) = U_ERROR_COMMON_SUCCESS) =
     (ret (P (trace s) (xTimerChangePeriod h (i div portTICK_PERIOD_MS C) portMAX_DELAY))
        = pdPASS)"
  by (simp add: uPortTimerChange_def Let_def invoke_def codes_distinct split: prod.splits)

lemma uPortMutexUnlock_result:
  "fst (uPortMutexUnlock P h s) =
       (if h \<noteq> NULL then U_ERROR_COMMON_SUCCESS else U_ERROR_COMMON_INVALID_PARAMETER)"
  by (simp add: uPortMutexUnlock_def Let_def invoke_def codes_distinct split: prod.splits)

lemma uPortMutexUnlock_trace:
  "trace (snd (uPortMutexUnlock P h s)) =
       (if h \<noteq> NULL then trace s @ [xSemaphoreGive h] else trace s)"
  by (simp add: uPortMutexUnlock_def Let_def invoke_def codes_distinct split: prod.splits)

lemma uPortSemaphoreGive_result:
  "fst (uPortSemaphoreGive P h s) =
       (if h \<noteq> NULL then U_ERROR_COMMON_SUCCESS else U_ERROR_COMMON_INVALID_PARAMETER)"
  by (simp add: uPortSemaphoreGive_def Let_def invoke_def codes_distinct split: prod.splits)

lemma uPortSemaphoreGive_trace:
  "trace (snd (uPortSemaphoreGive P h s)) =
       (if h \<noteq> NULL then trace s @ [xSemaphoreGive h] else trace s)"
  by (simp add: uPortSemaphoreGive_def Let_def invoke_def codes_distinct split: prod.splits)

subsection \<open>Creating a task\<close>

text \<open>
  The half of the claim about malformed parameters holds: a null entry function, a null
  output pointer or a priority outside the configured range gives the invalid parameter
  code, and nothing else happens.
\<close>

lemma uPortTaskCreate_malformed:
  "pFunction = NULL \<or> pTaskHandle = NULL
     \<or> sint priority < sint (U_CFG_OS_PRIORITY_MIN C)
     \<or> sint (U_CFG_OS_PRIORITY_MAX C) < sint priority \<Longrightarrow>
   uPortTaskCreate C P pFunction pName stackSizeBytes pParameter priority pTaskHandle s =
     (U_ERROR_COMMON_INVALID_PARAMETER, s)"
  by (auto simp add: uPortTaskCreate_def Let_def)

text \<open>
  The other half does not: with parameters that pass every check, whenever
  \<^verbatim>\<open>xTaskCreate\<close> returns anything but \<^verbatim>\<open>pdPASS\<close> the result is the invalid parameter
  code again, since \<^verbatim>\<open>errorCode\<close> still holds its initial value.
\<close>

lemma uPortTaskCreate_kernel_failure:
  "pFunction \<noteq> NULL \<Longrightarrow> pTaskHandle \<noteq> NULL \<Longrightarrow>
   sint (U_CFG_OS_PRIORITY_MIN C) \<le> sint priority \<Longrightarrow>
   sint priority \<le> sint (U_CFG_OS_PRIORITY_MAX C) \<Longrightarrow>
   ret (P (trace s) (xTaskCreate pFunction pName stackSizeBytes pParameter priority
                       pTaskHandle)) \<noteq> pdPASS \<Longrightarrow>
   fst (uPortTaskCreate C P pFunction pName stackSizeBytes pParameter priority
          pTaskHandle s) = U_ERROR_COMMON_INVALID_PARAMETER"
  by (simp add: uPortTaskCreate_def Let_def invoke_def)

text \<open>
  C2. The claim: malformed parameters give the invalid parameter kind, and a kernel that
  fails to allocate the task gives the platform kind, never the invalid parameter kind.
  The code at a failing allocation: entry function \<open>0x400D1000\<close>, a name, 4096 bytes of
  stack, priority 5 (within 1 to 15) and an output pointer, none of them malformed, on a
  kernel whose \<^verbatim>\<open>xTaskCreate\<close> returns \<open>-1\<close>
  (\<^verbatim>\<open>errCOULD_NOT_ALLOCATE_REQUIRED_MEMORY\<close>). The kernel was called, and the result is
  the invalid parameter code, not the platform code; \<open>uPortQueueCreate\<close> on a kernel that
  cannot allocate the queue returns the platform code.
\<close>

theorem uPortTaskCreate_allocation_failure_code:
  "fst (uPortTaskCreate stm32f4_cfg (answering (- 1)) 0x400D1000 0x3F400120 4096 NULL 5
          0x3FFB0000 os_init) = U_ERROR_COMMON_INVALID_PARAMETER
   \<and> fst (uPortTaskCreate stm32f4_cfg (answering (- 1)) 0x400D1000 0x3F400120 4096 NULL 5
          0x3FFB0000 os_init) \<noteq> U_ERROR_COMMON_PLATFORM
   \<and> trace (snd (uPortTaskCreate stm32f4_cfg (answering (- 1)) 0x400D1000 0x3F400120 4096
          NULL 5 0x3FFB0000 os_init)) =
       [xTaskCreate 0x400D1000 0x3F400120 4096 NULL 5 0x3FFB0000]
   \<and> fst (uPortQueueCreate (answering 0) 4 8 0x3FFB0000 os_init) = U_ERROR_COMMON_PLATFORM"
  by (simp add: eval_defs)

subsection \<open>Destroying\<close>

text \<open>
  C3, as it is claimed, fails on the code. On a kernel that hands out the handle
  \<open>0x3FFB1000\<close>: a queue is created (the counter reads 1) and deleted (0), the same
  handle is deleted a second time, and a mutex handle that no create ever returned is
  deleted. Both of the last two calls return success, not the invalid parameter code, and
  each takes one off the counter, which ends at \<open>-2\<close>.
\<close>

theorem destroy_dead_handle_counterexample:
  "fst (run stm32f4_cfg (answering 0x3FFB1000)
          [QueueCreate 4 8 0x3FFB0000, QueueDelete 0x3FFB1000, QueueDelete 0x3FFB1000,
           MutexDelete 0x3FFB2000] os_init) =
     [(QueueCreate 4 8 0x3FFB0000, U_ERROR_COMMON_SUCCESS),
      (QueueDelete 0x3FFB1000, U_ERROR_COMMON_SUCCESS),
      (QueueDelete 0x3FFB1000, U_ERROR_COMMON_SUCCESS),
      (MutexDelete 0x3FFB2000, U_ERROR_COMMON_SUCCESS)]
   \<and> U_ERROR_COMMON_SUCCESS \<noteq> U_ERROR_COMMON_INVALID_PARAMETER
   \<and> sint (uPortOsResourceAllocCount (snd (run stm32f4_cfg (answering 0x3FFB1000)
          [QueueCreate 4 8 0x3FFB0000, QueueDelete 0x3FFB1000] os_init))) = 0
   \<and> sint (uPortOsResourceAllocCount (snd (run stm32f4_cfg (answering 0x3FFB1000)
          [QueueCreate 4 8 0x3FFB0000, QueueDelete 0x3FFB1000, QueueDelete 0x3FFB1000]
          os_init))) = - 1
   \<and> sint (uPortOsResourceAllocCount (snd (run stm32f4_cfg (answering 0x3FFB1000)
          [QueueCreate 4 8 0x3FFB0000, QueueDelete 0x3FFB1000, QueueDelete 0x3FFB1000,
           MutexDelete 0x3FFB2000] os_init))) = - 2"
  by (simp add: eval_defs)

text \<open>
  C3, amended. The layer keeps no record of the handles it gave out. The queue, mutex and
  semaphore deletes reject the null handle alone, with the invalid parameter code and the
  state as it was; any other handle goes to the kernel's delete, the result is success and
  the counter goes down by one. The timer delete hands every handle to
  \<^verbatim>\<open>uPortPrivateTimerDelete\<close> and returns what that returned, and the counter goes down
  by one exactly when that is zero.
\<close>

theorem destroy_rejects_only_null:
  "uPortQueueDelete P h s =
     (if h = NULL then (U_ERROR_COMMON_INVALID_PARAMETER, s)
      else (U_ERROR_COMMON_SUCCESS,
            s\<lparr>gResourceAllocCount := gResourceAllocCount s - 1,
              trace := trace s @ [vQueueDelete h]\<rparr>))
   \<and> uPortMutexDelete P h s =
     (if h = NULL then (U_ERROR_COMMON_INVALID_PARAMETER, s)
      else (U_ERROR_COMMON_SUCCESS,
            s\<lparr>gResourceAllocCount := gResourceAllocCount s - 1,
              trace := trace s @ [vSemaphoreDelete h]\<rparr>))
   \<and> uPortSemaphoreDelete P h s =
     (if h = NULL then (U_ERROR_COMMON_INVALID_PARAMETER, s)
      else (U_ERROR_COMMON_SUCCESS,
            s\<lparr>gResourceAllocCount := gResourceAllocCount s - 1,
              trace := trace s @ [vSemaphoreDelete h]\<rparr>))
   \<and> uPortTimerDelete P h s =
     (ret (P (trace s) (uPortPrivateTimerDelete h)),
      s\<lparr>gResourceAllocCount :=
          (if ret (P (trace s) (uPortPrivateTimerDelete h)) = U_ERROR_COMMON_SUCCESS
           then gResourceAllocCount s - 1 else gResourceAllocCount s),
        trace := trace s @ [uPortPrivateTimerDelete h]\<rparr>)"
  by (simp add: uPortQueueDelete_def uPortMutexDelete_def uPortSemaphoreDelete_def
        uPortTimerDelete_def Let_def invoke_def U_ATOMIC_DECREMENT_def
        U_ERROR_COMMON_SUCCESS_def)

subsection \<open>Waiting for ever\<close>

text \<open>
  C4, as it is claimed, fails on the code for the peek: with a queue handle and a buffer
  that are not null, on a kernel whose \<^verbatim>\<open>xQueuePeek\<close> returns 0, \<open>uPortQueuePeek\<close>
  asks the kernel to wait for ever (\<^verbatim>\<open>portMAX_DELAY\<close>) and returns the timeout code.
\<close>

theorem peek_timeout_counterexample:
  "fst (uPortQueuePeek (answering 0) 0x3FFB1000 0x3FFB2000 os_init) = U_ERROR_COMMON_TIMEOUT
   \<and> trace (snd (uPortQueuePeek (answering 0) 0x3FFB1000 0x3FFB2000 os_init)) =
       [xQueuePeek 0x3FFB1000 0x3FFB2000 portMAX_DELAY]"
  by (simp add: uPortQueuePeek_def Let_def invoke_def answering_def os_init_def NULL_def
        pdTRUE_def)

text \<open>
  C4, amended. \<open>uPortQueueSend\<close>, \<open>uPortQueueReceive\<close>, \<open>uPortMutexLock\<close> and
  \<open>uPortSemaphoreTake\<close> hand the kernel \<^verbatim>\<open>portMAX_DELAY\<close> and never return the timeout
  code: the result is success when the kernel call returned \<^verbatim>\<open>pdTRUE\<close>, the platform
  code when it did not, and the invalid parameter code for a null argument. The debug
  build of \<open>uPortQueueSend\<close> never returns the timeout code either. \<open>uPortQueuePeek\<close>
  waits for ever too, and returns the timeout code when the kernel call did not return
  \<^verbatim>\<open>pdTRUE\<close>.
\<close>

theorem indefinite_wait_results:
  "fst (uPortQueueSend P q d s) =
     (if q \<noteq> NULL \<and> d \<noteq> NULL
      then if ret (P (trace s) (xQueueSend q d portMAX_DELAY)) = pdTRUE
           then U_ERROR_COMMON_SUCCESS else U_ERROR_COMMON_PLATFORM
      else U_ERROR_COMMON_INVALID_PARAMETER)
   \<and> fst (uPortQueueReceive P q d s) =
     (if q \<noteq> NULL \<and> d \<noteq> NULL
      then if ret (P (trace s) (xQueueReceive q d portMAX_DELAY)) = pdTRUE
           then U_ERROR_COMMON_SUCCESS else U_ERROR_COMMON_PLATFORM
      else U_ERROR_COMMON_INVALID_PARAMETER)
   \<and> fst (uPortMutexLock P h s) =
     (if h \<noteq> NULL
      then if ret (P (trace s) (xSemaphoreTake h portMAX_DELAY)) = pdTRUE
           then U_ERROR_COMMON_SUCCESS else U_ERROR_COMMON_PLATFORM
      else U_ERROR_COMMON_INVALID_PARAMETER)
   \<and> fst (uPortSemaphoreTake P h s) =
     (if h \<noteq> NULL
      then if ret (P (trace s) (xSemaphoreTake h portMAX_DELAY)) = pdTRUE
           then U_ERROR_COMMON_SUCCESS else U_ERROR_COMMON_PLATFORM
      else U_ERROR_COMMON_INVALID_PARAMETER)
   \<and> fst (uPortQueueSend P q d s) \<noteq> U_ERROR_COMMON_TIMEOUT
   \<and> fst (uPortQueueReceive P q d s) \<noteq> U_ERROR_COMMON_TIMEOUT
   \<and> fst (uPortMutexLock P h s) \<noteq> U_ERROR_COMMON_TIMEOUT
   \<and> fst (uPortSemaphoreTake P h s) \<noteq> U_ERROR_COMMON_TIMEOUT
   \<and> uPortQueueSend_debug C P q d s \<noteq> Some (U_ERROR_COMMON_TIMEOUT, s')
   \<and> fst (uPortQueuePeek P q d s) =
     (if q \<noteq> NULL \<and> d \<noteq> NULL
      then if ret (P (trace s) (xQueuePeek q d portMAX_DELAY)) = pdTRUE
           then U_ERROR_COMMON_SUCCESS else U_ERROR_COMMON_TIMEOUT
      else U_ERROR_COMMON_INVALID_PARAMETER)"
  by (simp add: uPortQueueSend_def uPortQueueReceive_def uPortMutexLock_def
        uPortSemaphoreTake_def uPortQueuePeek_def uPortQueueSend_debug_def Let_def
        invoke_def code_defs split: option.splits)

subsection \<open>Kernel failures and success\<close>

text \<open>
  Every operation that reads the result of its platform call returns success only if that
  call succeeded: \<^verbatim>\<open>pdTRUE\<close> or \<^verbatim>\<open>pdPASS\<close>, a handle that is not null from a create,
  the private timer functions' own code passed through.
\<close>

lemma kernel_failure_is_never_success:
  "(fst (uPortTaskCreate C P f n sz a pr ph s) = U_ERROR_COMMON_SUCCESS) =
     (f \<noteq> NULL \<and> ph \<noteq> NULL \<and> sint (U_CFG_OS_PRIORITY_MIN C) \<le> sint pr
      \<and> sint pr \<le> sint (U_CFG_OS_PRIORITY_MAX C)
      \<and> ret (P (trace s) (xTaskCreate f n sz a pr ph)) = pdPASS)
   \<and> (fst (uPortQueueCreate P len sz p s) = U_ERROR_COMMON_SUCCESS) =
     (p \<noteq> NULL \<and> ret (P (trace s) (xQueueCreate len sz)) \<noteq> NULL)
   \<and> (fst (uPortQueueSend P q d s) = U_ERROR_COMMON_SUCCESS) =
     (q \<noteq> NULL \<and> d \<noteq> NULL \<and> ret (P (trace s) (xQueueSend q d portMAX_DELAY)) = pdTRUE)
   \<and> (fst (uPortQueueSendIrq P q d s) = U_ERROR_COMMON_SUCCESS) =
     (q \<noteq> NULL \<and> d \<noteq> NULL \<and> ret (P (trace s) (xQueueSendFromISR q d)) = pdTRUE)
   \<and> (fst (uPortQueueReceive P q d s) = U_ERROR_COMMON_SUCCESS) =
     (q \<noteq> NULL \<and> d \<noteq> NULL \<and> ret (P (trace s) (xQueueReceive q d portMAX_DELAY)) = pdTRUE)
   \<and> (fst (uPortQueueReceiveIrq P q d s) = U_ERROR_COMMON_SUCCESS) =
     (q \<noteq> NULL \<and> d \<noteq> NULL \<and> ret (P (trace s) (xQueueReceiveFromISR q d NULL)) = pdTRUE)
   \<and> (fst (uPortQueueTryReceive C P q w d s) = U_ERROR_COMMON_SUCCESS) =
     (q \<noteq> NULL \<and> d \<noteq> NULL
      \<and> ret (P (trace s) (xQueueReceive q d (w div portTICK_PERIOD_MS C))) = pdTRUE)
   \<and> (fst (uPortQueuePeek P q d s) = U_ERROR_COMMON_SUCCESS) =
     (q \<noteq> NULL \<and> d \<noteq> NULL \<and> ret (P (trace s) (xQueuePeek q d portMAX_DELAY)) = pdTRUE)
   \<and> (fst (uPortMutexCreate P p s) = U_ERROR_COMMON_SUCCESS) =
     (p \<noteq> NULL \<and> ret (P (trace s) xSemaphoreCreateMutex) \<noteq> NULL)
   \<and> (fst (uPortMutexLock P h s) = U_ERROR_COMMON_SUCCESS) =
     (h \<noteq> NULL \<and> ret (P (trace s) (xSemaphoreTake h portMAX_DELAY)) = pdTRUE)
   \<and> (fst (uPortMutexTryLock C P h w s) = U_ERROR_COMMON_SUCCESS) =
     (h \<noteq> NULL \<and> ret (P (trace s) (xSemaphoreTake h (w div portTICK_PERIOD_MS C))) = pdTRUE)
   \<and> (fst (uPortSemaphoreCreate P p i l s) = U_ERROR_COMMON_SUCCESS) =
     (p \<noteq> NULL \<and> l \<noteq> 0 \<and> i \<le> l
      \<and> ret (P (trace s) (xSemaphoreCreateCounting l i)) \<noteq> NULL)
   \<and> (fst (uPortSemaphoreTake P h s) = U_ERROR_COMMON_SUCCESS) =
     (h \<noteq> NULL \<and> ret (P (trace s) (xSemaphoreTake h portMAX_DELAY)) = pdTRUE)
   \<and> (fst (uPortSemaphoreTryTake C P h w s) = U_ERROR_COMMON_SUCCESS) =
     (h \<noteq> NULL \<and> ret (P (trace s) (xSemaphoreTake h (w div portTICK_PERIOD_MS C))) = pdTRUE)
   \<and> (fst (uPortSemaphoreGiveIrq P h s) = U_ERROR_COMMON_SUCCESS) =
     (h \<noteq> NULL \<and> ret (P (trace s) (xSemaphoreGiveFromISR h)) = pdTRUE)
   \<and> fst (uPortTimerCreate P p n cb a i pe s) =
       ret (P (trace s) (uPortPrivateTimerCreate p n cb a i pe))
   \<and> fst (uPortTimerDelete P h s) = ret (P (trace s) (uPortPrivateTimerDelete h))
   \<and> (fst (uPortTimerStart P h s) = U_ERROR_COMMON_SUCCESS) =
     (ret (P (trace s) (xTimerStart h portMAX_DELAY)) = pdPASS)
   \<and> (fst (uPortTimerStop P h s) = U_ERROR_COMMON_SUCCESS) =
     (ret (P (trace s) (xTimerStop h portMAX_DELAY)) = pdPASS)
   \<and> (fst (uPortTimerChange C P h i s) = U_ERROR_COMMON_SUCCESS) =
     (ret (P (trace s) (xTimerChangePeriod h (i div portTICK_PERIOD_MS C) portMAX_DELAY))
        = pdPASS)"
  by (intro conjI uPortTaskCreate_success
    uPortQueueCreate_success
    uPortQueueSend_success
    uPortQueueSendIrq_success
    uPortQueueReceive_success
    uPortQueueReceiveIrq_success
    uPortQueueTryReceive_success
    uPortQueuePeek_success
    uPortMutexCreate_success
    uPortMutexLock_success
    uPortMutexTryLock_success
    uPortSemaphoreCreate_success
    uPortSemaphoreTake_success
    uPortSemaphoreTryTake_success
    uPortSemaphoreGiveIrq_success
    uPortTimerCreate_result
    uPortTimerDelete_result
    uPortTimerStart_success
    uPortTimerStop_success
    uPortTimerChange_success)

text \<open>
  C5. The claim: no operation maps a failure that the kernel reported to a success return,
  unlocking a mutex that is not held apart, and \<open>uPortSemaphoreGive\<close> in particular does
  not. The code at a refused give: the semaphore \<open>0x3FFB1000\<close> is at its limit, so the
  kernel's \<^verbatim>\<open>xSemaphoreGive\<close> returns 0, which is not \<^verbatim>\<open>pdTRUE\<close>. The kernel was
  called, its answer was dropped, and \<open>uPortSemaphoreGive\<close> returns success. On the same
  answer of the kernel \<open>uPortSemaphoreGiveIrq\<close> returns the platform code.
\<close>

theorem uPortSemaphoreGive_kernel_refusal_code:
  "ret (answering 0 (trace os_init) (xSemaphoreGive 0x3FFB1000)) \<noteq> pdTRUE
   \<and> fst (uPortSemaphoreGive (answering 0) 0x3FFB1000 os_init) = U_ERROR_COMMON_SUCCESS
   \<and> trace (snd (uPortSemaphoreGive (answering 0) 0x3FFB1000 os_init)) =
       [xSemaphoreGive 0x3FFB1000]
   \<and> fst (uPortSemaphoreGiveIrq (answering 0) 0x3FFB1000 os_init) = U_ERROR_COMMON_PLATFORM"
  by (simp add: uPortSemaphoreGive_def uPortSemaphoreGiveIrq_def Let_def invoke_def
        answering_def os_init_def NULL_def pdTRUE_def yield_of_def)

subsection \<open>Creating a semaphore\<close>

text \<open>On an unsigned word, \<open>limit \<ge> 1\<close> is the source's \<^verbatim>\<open>limit != 0\<close>.\<close>

lemma word_ge_1_iff: "(1 \<le> (w :: 32 word)) = (w \<noteq> 0)"
  by (simp add: word_le_nat_alt Suc_le_eq unat_gt_0)

text \<open>
  C6. When the output pointer is not null, \<open>limit \<ge> 1\<close> and \<open>initialCount \<le> limit\<close>,
  \<open>uPortSemaphoreCreate\<close> makes one platform call, \<^verbatim>\<open>xSemaphoreCreateCounting\<close> with
  the limit and the initial count it was given, returns success and counts the semaphore
  when a handle came back, and returns the platform code without counting when none did.
  Otherwise it returns the invalid parameter code and the whole state is as before: no
  platform call, no change of the counter.
\<close>

theorem uPortSemaphoreCreate_validates_then_forwards:
  "(pSemaphoreHandle \<noteq> NULL \<and> 1 \<le> limit \<and> initialCount \<le> limit \<longrightarrow>
      trace (snd (uPortSemaphoreCreate P pSemaphoreHandle initialCount limit s)) =
        trace s @ [xSemaphoreCreateCounting limit initialCount]
      \<and> fst (uPortSemaphoreCreate P pSemaphoreHandle initialCount limit s) =
          (if ret (P (trace s) (xSemaphoreCreateCounting limit initialCount)) \<noteq> NULL
           then U_ERROR_COMMON_SUCCESS else U_ERROR_COMMON_PLATFORM)
      \<and> gResourceAllocCount (snd (uPortSemaphoreCreate P pSemaphoreHandle initialCount
                                     limit s)) =
          (if ret (P (trace s) (xSemaphoreCreateCounting limit initialCount)) \<noteq> NULL
           then gResourceAllocCount s + 1 else gResourceAllocCount s))
   \<and> (\<not> (pSemaphoreHandle \<noteq> NULL \<and> 1 \<le> limit \<and> initialCount \<le> limit) \<longrightarrow>
      uPortSemaphoreCreate P pSemaphoreHandle initialCount limit s =
        (U_ERROR_COMMON_INVALID_PARAMETER, s))"
  by (simp add: uPortSemaphoreCreate_def Let_def invoke_def U_ATOMIC_INCREMENT_def
        word_ge_1_iff)

text \<open>
  Limit 5 with initial count 2 is forwarded as it is; an initial count of 6 above the
  limit 5, a limit of 0 and a null output pointer are refused.
\<close>

theorem uPortSemaphoreCreate_witness:
  "trace (snd (uPortSemaphoreCreate (answering 0x3FFB1000) 0x3FFB0000 2 5 os_init)) =
     [xSemaphoreCreateCounting 5 2]
   \<and> fst (uPortSemaphoreCreate (answering 0x3FFB1000) 0x3FFB0000 2 5 os_init) =
       U_ERROR_COMMON_SUCCESS
   \<and> gResourceAllocCount (snd (uPortSemaphoreCreate (answering 0x3FFB1000) 0x3FFB0000 2 5
                                  os_init)) = 1
   \<and> uPortSemaphoreCreate (answering 0x3FFB1000) 0x3FFB0000 6 5 os_init =
       (U_ERROR_COMMON_INVALID_PARAMETER, os_init)
   \<and> uPortSemaphoreCreate (answering 0x3FFB1000) 0x3FFB0000 0 0 os_init =
       (U_ERROR_COMMON_INVALID_PARAMETER, os_init)
   \<and> uPortSemaphoreCreate (answering 0x3FFB1000) NULL 2 5 os_init =
       (U_ERROR_COMMON_INVALID_PARAMETER, os_init)"
  using uPortSemaphoreCreate_validates_then_forwards
          [of "0x3FFB0000" 5 2 "answering 0x3FFB1000" os_init]
        uPortSemaphoreCreate_validates_then_forwards
          [of "0x3FFB0000" 5 6 "answering 0x3FFB1000" os_init]
        uPortSemaphoreCreate_validates_then_forwards
          [of "0x3FFB0000" 0 0 "answering 0x3FFB1000" os_init]
        uPortSemaphoreCreate_validates_then_forwards
          [of NULL 5 2 "answering 0x3FFB1000" os_init]
  by (simp add: NULL_def os_init_def answering_def)

subsection \<open>From an interrupt\<close>

text \<open>
  C7. With arguments that are not null, \<open>uPortQueueSendIrq\<close> and
  \<open>uPortSemaphoreGiveIrq\<close> return the platform code when the kernel's interrupt entry
  point refuses (a full queue, a semaphore at its limit: anything but \<^verbatim>\<open>pdTRUE\<close>) and
  success when it accepts. They do not wait: the only platform calls they make are that
  entry point and, when the kernel asked for it, \<^verbatim>\<open>taskYIELD\<close>, and no call they make
  takes a time to wait.
\<close>

theorem irq_variants_do_not_wait:
  "(queueHandle \<noteq> NULL \<and> pEventData \<noteq> NULL
      \<and> ret (P (trace s) (xQueueSendFromISR queueHandle pEventData)) \<noteq> pdTRUE \<longrightarrow>
      fst (uPortQueueSendIrq P queueHandle pEventData s) = U_ERROR_COMMON_PLATFORM)
   \<and> (queueHandle \<noteq> NULL \<and> pEventData \<noteq> NULL
      \<and> ret (P (trace s) (xQueueSendFromISR queueHandle pEventData)) = pdTRUE \<longrightarrow>
      fst (uPortQueueSendIrq P queueHandle pEventData s) = U_ERROR_COMMON_SUCCESS)
   \<and> (queueHandle \<noteq> NULL \<and> pEventData \<noteq> NULL \<longrightarrow>
      trace (snd (uPortQueueSendIrq P queueHandle pEventData s)) =
        trace s @ xQueueSendFromISR queueHandle pEventData #
          (if yield_of (P (trace s) (xQueueSendFromISR queueHandle pEventData)) \<noteq> 0
           then [taskYIELD] else []))
   \<and> (\<forall>c \<in> set (drop (length (trace s))
                   (trace (snd (uPortQueueSendIrq P queueHandle pEventData s)))).
        xTicksToWait c = None)
   \<and> (semaphoreHandle \<noteq> NULL
      \<and> ret (P (trace s) (xSemaphoreGiveFromISR semaphoreHandle)) \<noteq> pdTRUE \<longrightarrow>
      fst (uPortSemaphoreGiveIrq P semaphoreHandle s) = U_ERROR_COMMON_PLATFORM)
   \<and> (semaphoreHandle \<noteq> NULL
      \<and> ret (P (trace s) (xSemaphoreGiveFromISR semaphoreHandle)) = pdTRUE \<longrightarrow>
      fst (uPortSemaphoreGiveIrq P semaphoreHandle s) = U_ERROR_COMMON_SUCCESS)
   \<and> (semaphoreHandle \<noteq> NULL \<longrightarrow>
      trace (snd (uPortSemaphoreGiveIrq P semaphoreHandle s)) =
        trace s @ xSemaphoreGiveFromISR semaphoreHandle #
          (if yield_of (P (trace s) (xSemaphoreGiveFromISR semaphoreHandle)) \<noteq> 0
           then [taskYIELD] else []))
   \<and> (\<forall>c \<in> set (drop (length (trace s))
                   (trace (snd (uPortSemaphoreGiveIrq P semaphoreHandle s)))).
        xTicksToWait c = None)"
  by (simp add: uPortQueueSendIrq_def uPortSemaphoreGiveIrq_def Let_def invoke_def)

text \<open>
  A kernel that answers 0 (the queue is full, the semaphore at its limit) and one that
  answers 1, with handle \<open>0x3FFB1000\<close> and item \<open>0x3FFB2000\<close>.
\<close>

theorem irq_variants_witness:
  "fst (uPortQueueSendIrq (answering 0) 0x3FFB1000 0x3FFB2000 os_init) =
     U_ERROR_COMMON_PLATFORM
   \<and> fst (uPortQueueSendIrq (answering 1) 0x3FFB1000 0x3FFB2000 os_init) =
       U_ERROR_COMMON_SUCCESS
   \<and> trace (snd (uPortQueueSendIrq (answering 0) 0x3FFB1000 0x3FFB2000 os_init)) =
       [xQueueSendFromISR 0x3FFB1000 0x3FFB2000]
   \<and> fst (uPortSemaphoreGiveIrq (answering 0) 0x3FFB1000 os_init) = U_ERROR_COMMON_PLATFORM
   \<and> fst (uPortSemaphoreGiveIrq (answering 1) 0x3FFB1000 os_init) = U_ERROR_COMMON_SUCCESS
   \<and> trace (snd (uPortSemaphoreGiveIrq (answering 0) 0x3FFB1000 os_init)) =
       [xSemaphoreGiveFromISR 0x3FFB1000]"
  using irq_variants_do_not_wait
          [of "0x3FFB1000" "0x3FFB2000" "answering 0" os_init "0x3FFB1000"]
        irq_variants_do_not_wait
          [of "0x3FFB1000" "0x3FFB2000" "answering 1" os_init "0x3FFB1000"]
  by (simp add: NULL_def os_init_def answering_def pdTRUE_def yield_of_def)

subsection \<open>Receiving with a wait time\<close>

text \<open>
  C8. With a queue handle and an output pointer that are not null,
  \<open>uPortQueueTryReceive\<close> asks the kernel once, with the wait time in ticks: the result
  is success when an item arrived (\<^verbatim>\<open>pdTRUE\<close>) and the timeout code when none did, and
  the timeout code differs from the invalid parameter code, from the platform code and
  from success.
\<close>

theorem uPortQueueTryReceive_timeout_kind:
  "(queueHandle \<noteq> NULL \<and> pEventData \<noteq> NULL
      \<and> ret (P (trace s) (xQueueReceive queueHandle pEventData
                             (waitMs div portTICK_PERIOD_MS C))) = pdTRUE \<longrightarrow>
      fst (uPortQueueTryReceive C P queueHandle waitMs pEventData s) =
        U_ERROR_COMMON_SUCCESS)
   \<and> (queueHandle \<noteq> NULL \<and> pEventData \<noteq> NULL
      \<and> ret (P (trace s) (xQueueReceive queueHandle pEventData
                             (waitMs div portTICK_PERIOD_MS C))) \<noteq> pdTRUE \<longrightarrow>
      fst (uPortQueueTryReceive C P queueHandle waitMs pEventData s) =
        U_ERROR_COMMON_TIMEOUT)
   \<and> (queueHandle \<noteq> NULL \<and> pEventData \<noteq> NULL \<longrightarrow>
      trace (snd (uPortQueueTryReceive C P queueHandle waitMs pEventData s)) =
        trace s @ [xQueueReceive queueHandle pEventData (waitMs div portTICK_PERIOD_MS C)]
      \<and> gResourceAllocCount (snd (uPortQueueTryReceive C P queueHandle waitMs pEventData s))
          = gResourceAllocCount s)
   \<and> U_ERROR_COMMON_TIMEOUT \<noteq> U_ERROR_COMMON_INVALID_PARAMETER
   \<and> U_ERROR_COMMON_TIMEOUT \<noteq> U_ERROR_COMMON_PLATFORM
   \<and> U_ERROR_COMMON_TIMEOUT \<noteq> U_ERROR_COMMON_SUCCESS"
  by (simp add: uPortQueueTryReceive_def Let_def invoke_def code_defs)

text \<open>A wait of 100 ms at a tick of 1 ms, on a kernel with an item and on one without.\<close>

theorem uPortQueueTryReceive_witness:
  "fst (uPortQueueTryReceive stm32f4_cfg (answering 1) 0x3FFB1000 100 0x3FFB2000 os_init) =
     U_ERROR_COMMON_SUCCESS
   \<and> fst (uPortQueueTryReceive stm32f4_cfg (answering 0) 0x3FFB1000 100 0x3FFB2000 os_init)
       = U_ERROR_COMMON_TIMEOUT
   \<and> trace (snd (uPortQueueTryReceive stm32f4_cfg (answering 0) 0x3FFB1000 100 0x3FFB2000
                    os_init)) = [xQueueReceive 0x3FFB1000 0x3FFB2000 100]"
  using uPortQueueTryReceive_timeout_kind
          [of "0x3FFB1000" "0x3FFB2000" "answering 1" os_init 100 stm32f4_cfg]
        uPortQueueTryReceive_timeout_kind
          [of "0x3FFB1000" "0x3FFB2000" "answering 0" os_init 100 stm32f4_cfg]
  by (simp add: NULL_def os_init_def answering_def pdTRUE_def stm32f4_cfg_def)

subsection \<open>Deleting a task\<close>

text \<open>
  C9. \<open>uPortTaskDelete\<close> accepts the null handle, which stands for the calling task: it
  takes one off the counter, calls \<^verbatim>\<open>vTaskDelete(NULL)\<close> and returns success. Every
  other handle is refused with the invalid parameter code, and the state is as before:
  nothing is deleted.
\<close>

theorem uPortTaskDelete_only_null:
  "fst (uPortTaskDelete P NULL s) = U_ERROR_COMMON_SUCCESS
   \<and> trace (snd (uPortTaskDelete P NULL s)) = trace s @ [vTaskDelete NULL]
   \<and> gResourceAllocCount (snd (uPortTaskDelete P NULL s)) = gResourceAllocCount s - 1
   \<and> (taskHandle \<noteq> NULL \<longrightarrow>
        uPortTaskDelete P taskHandle s = (U_ERROR_COMMON_INVALID_PARAMETER, s))"
  by (simp add: uPortTaskDelete_def Let_def invoke_def U_ATOMIC_DECREMENT_def)

theorem uPortTaskDelete_witness:
  "uPortTaskDelete (answering 0) 0x3FFB1000 os_init =
     (U_ERROR_COMMON_INVALID_PARAMETER, os_init)
   \<and> fst (uPortTaskDelete (answering 0) NULL os_init) = U_ERROR_COMMON_SUCCESS
   \<and> trace (snd (uPortTaskDelete (answering 0) NULL os_init)) = [vTaskDelete NULL]"
  using uPortTaskDelete_only_null [of "answering 0" os_init "0x3FFB1000"]
  by (simp add: NULL_def os_init_def)

subsection \<open>Starting, stopping and changing a timer\<close>

lemma uPortTimerStart_unchecked:
  "fst (uPortTimerStart P h s) =
     (if ret (P (trace s) (xTimerStart h portMAX_DELAY)) = pdPASS
      then U_ERROR_COMMON_SUCCESS else U_ERROR_COMMON_PLATFORM)
   \<and> fst (uPortTimerStart P h s) \<noteq> U_ERROR_COMMON_INVALID_PARAMETER
   \<and> trace (snd (uPortTimerStart P h s)) = trace s @ [xTimerStart h portMAX_DELAY]"
  by (simp add: uPortTimerStart_def Let_def invoke_def codes_distinct codes_distinct [symmetric])

lemma uPortTimerStop_unchecked:
  "fst (uPortTimerStop P h s) =
     (if ret (P (trace s) (xTimerStop h portMAX_DELAY)) = pdPASS
      then U_ERROR_COMMON_SUCCESS else U_ERROR_COMMON_PLATFORM)
   \<and> fst (uPortTimerStop P h s) \<noteq> U_ERROR_COMMON_INVALID_PARAMETER
   \<and> trace (snd (uPortTimerStop P h s)) = trace s @ [xTimerStop h portMAX_DELAY]"
  by (simp add: uPortTimerStop_def Let_def invoke_def codes_distinct codes_distinct [symmetric])

lemma uPortTimerChange_unchecked:
  "fst (uPortTimerChange C P h intervalMs s) =
     (if ret (P (trace s) (xTimerChangePeriod h (intervalMs div portTICK_PERIOD_MS C)
                             portMAX_DELAY)) = pdPASS
      then U_ERROR_COMMON_SUCCESS else U_ERROR_COMMON_PLATFORM)
   \<and> fst (uPortTimerChange C P h intervalMs s) \<noteq> U_ERROR_COMMON_INVALID_PARAMETER
   \<and> trace (snd (uPortTimerChange C P h intervalMs s)) =
       trace s @ [xTimerChangePeriod h (intervalMs div portTICK_PERIOD_MS C) portMAX_DELAY]"
  by (simp add: uPortTimerChange_def Let_def invoke_def codes_distinct
        codes_distinct [symmetric])

text \<open>
  Every operation that takes the handle of a queue, a mutex or a semaphore refuses the
  null handle, and leaves the state as it was.
\<close>

lemma null_handle_rejected:
  "uPortQueueDelete P NULL s = (U_ERROR_COMMON_INVALID_PARAMETER, s)"
  "uPortQueueSend P NULL d s = (U_ERROR_COMMON_INVALID_PARAMETER, s)"
  "uPortQueueSendIrq P NULL d s = (U_ERROR_COMMON_INVALID_PARAMETER, s)"
  "uPortQueueReceive P NULL d s = (U_ERROR_COMMON_INVALID_PARAMETER, s)"
  "uPortQueueReceiveIrq P NULL d s = (U_ERROR_COMMON_INVALID_PARAMETER, s)"
  "uPortQueueTryReceive C P NULL w d s = (U_ERROR_COMMON_INVALID_PARAMETER, s)"
  "uPortQueuePeek P NULL d s = (U_ERROR_COMMON_INVALID_PARAMETER, s)"
  "uPortQueueGetFree P NULL s = (U_ERROR_COMMON_INVALID_PARAMETER, s)"
  "uPortMutexDelete P NULL s = (U_ERROR_COMMON_INVALID_PARAMETER, s)"
  "uPortMutexLock P NULL s = (U_ERROR_COMMON_INVALID_PARAMETER, s)"
  "uPortMutexTryLock C P NULL w s = (U_ERROR_COMMON_INVALID_PARAMETER, s)"
  "uPortMutexUnlock P NULL s = (U_ERROR_COMMON_INVALID_PARAMETER, s)"
  "uPortSemaphoreDelete P NULL s = (U_ERROR_COMMON_INVALID_PARAMETER, s)"
  "uPortSemaphoreTake P NULL s = (U_ERROR_COMMON_INVALID_PARAMETER, s)"
  "uPortSemaphoreTryTake C P NULL w s = (U_ERROR_COMMON_INVALID_PARAMETER, s)"
  "uPortSemaphoreGive P NULL s = (U_ERROR_COMMON_INVALID_PARAMETER, s)"
  "uPortSemaphoreGiveIrq P NULL s = (U_ERROR_COMMON_INVALID_PARAMETER, s)"
  by (simp_all add: fn_defs Let_def)

text \<open>
  The operations that do not check the handle they are given, beside the three timer
  controls: the timer delete hands every handle to \<^verbatim>\<open>uPortPrivateTimerDelete\<close> and
  returns what that returned; the stack query hands every handle that is not null to the
  kernel and takes the null one to mean the calling task; the identity test compares any
  handle with the current task's; and the task delete accepts the null handle.
\<close>

lemma uPortTimerDelete_unchecked:
  "fst (uPortTimerDelete P h s) = ret (P (trace s) (uPortPrivateTimerDelete h))
   \<and> trace (snd (uPortTimerDelete P h s)) = trace s @ [uPortPrivateTimerDelete h]"
  by (simp add: uPortTimerDelete_def Let_def invoke_def U_ATOMIC_DECREMENT_def)

lemma uPortTaskStackMinFree_unchecked:
  "uPortTaskStackMinFree P h s =
     (if h = NULL
      then (ret (P (trace s @ [xTaskGetCurrentTaskHandle])
                   (uxTaskGetStackHighWaterMark
                      (ret (P (trace s) xTaskGetCurrentTaskHandle)))),
            s\<lparr>trace := trace s @ [xTaskGetCurrentTaskHandle,
                    uxTaskGetStackHighWaterMark
                      (ret (P (trace s) xTaskGetCurrentTaskHandle))]\<rparr>)
      else (ret (P (trace s) (uxTaskGetStackHighWaterMark h)),
            s\<lparr>trace := trace s @ [uxTaskGetStackHighWaterMark h]\<rparr>))"
  by (simp add: uPortTaskStackMinFree_def Let_def invoke_def)

lemma uPortTaskIsThis_unchecked:
  "uPortTaskIsThis P h s =
     (ret (P (trace s) xTaskGetCurrentTaskHandle) = h,
      s\<lparr>trace := trace s @ [xTaskGetCurrentTaskHandle]\<rparr>)"
  by (simp add: uPortTaskIsThis_def Let_def invoke_def)

lemma uPortTaskDelete_null_accepted:
  "fst (uPortTaskDelete P NULL s) = U_ERROR_COMMON_SUCCESS
   \<and> trace (snd (uPortTaskDelete P NULL s)) = trace s @ [vTaskDelete NULL]"
  by (simp add: uPortTaskDelete_def Let_def invoke_def U_ATOMIC_DECREMENT_def)

text \<open>
  C10, as it is claimed, fails on the code in its last clause, "unlike every other
  primitive operation": the three timer controls are not the only operations that leave
  the handle unchecked. \<open>uPortTimerDelete\<close> with the null handle calls
  \<^verbatim>\<open>uPortPrivateTimerDelete(NULL)\<close> and, that returning 0, returns success;
  \<open>uPortTaskStackMinFree\<close> hands the handle \<open>0x3FFB1000\<close>, which no create returned, to
  \<^verbatim>\<open>uxTaskGetStackHighWaterMark\<close> and returns the kernel's 512; \<open>uPortTaskIsThis\<close>
  compares it and answers no; \<open>uPortTaskDelete\<close> accepts the null handle. None of the
  results is the invalid parameter code.
\<close>

theorem other_operations_unchecked_counterexample:
  "fst (uPortTimerDelete (answering 0) NULL os_init) = U_ERROR_COMMON_SUCCESS
   \<and> trace (snd (uPortTimerDelete (answering 0) NULL os_init)) =
       [uPortPrivateTimerDelete NULL]
   \<and> fst (uPortTaskStackMinFree (answering 512) 0x3FFB1000 os_init) = 512
   \<and> trace (snd (uPortTaskStackMinFree (answering 512) 0x3FFB1000 os_init)) =
       [uxTaskGetStackHighWaterMark 0x3FFB1000]
   \<and> fst (uPortTaskIsThis (answering 512) 0x3FFB1000 os_init) = False
   \<and> fst (uPortTaskDelete (answering 0) NULL os_init) = U_ERROR_COMMON_SUCCESS
   \<and> U_ERROR_COMMON_SUCCESS \<noteq> U_ERROR_COMMON_INVALID_PARAMETER
   \<and> 512 \<noteq> U_ERROR_COMMON_INVALID_PARAMETER"
  by (simp add: uPortTimerDelete_def uPortTaskStackMinFree_def uPortTaskIsThis_def
        uPortTaskDelete_def Let_def invoke_def answering_def os_init_def NULL_def
        U_ATOMIC_DECREMENT_def code_defs)

text \<open>
  C10, amended. \<open>uPortTimerStart\<close>, \<open>uPortTimerStop\<close> and \<open>uPortTimerChange\<close> do not
  look at the handle. For every handle \<open>h\<close>, the null one included, the handle goes to the
  kernel as it is, with \<^verbatim>\<open>portMAX_DELAY\<close> to wait for the timer command; the result is
  success when the kernel returned \<^verbatim>\<open>pdPASS\<close> and the platform code otherwise, never the
  invalid parameter code. In this they differ from the operations that take a queue, mutex
  or semaphore handle, which all refuse the null handle with the invalid parameter code,
  but not from every other operation: \<open>uPortTimerDelete\<close> passes every handle to
  \<^verbatim>\<open>uPortPrivateTimerDelete\<close> and returns its result, \<open>uPortTaskStackMinFree\<close> and
  \<open>uPortTaskIsThis\<close> pass or compare every handle without a check of their own, and
  \<open>uPortTaskDelete\<close> accepts the null handle.
\<close>

theorem timer_control_has_no_handle_check:
  "(fst (uPortTimerStart P h s) =
      (if ret (P (trace s) (xTimerStart h portMAX_DELAY)) = pdPASS
       then U_ERROR_COMMON_SUCCESS else U_ERROR_COMMON_PLATFORM)
    \<and> fst (uPortTimerStart P h s) \<noteq> U_ERROR_COMMON_INVALID_PARAMETER
    \<and> trace (snd (uPortTimerStart P h s)) = trace s @ [xTimerStart h portMAX_DELAY])
   \<and> (fst (uPortTimerStop P h s) =
      (if ret (P (trace s) (xTimerStop h portMAX_DELAY)) = pdPASS
       then U_ERROR_COMMON_SUCCESS else U_ERROR_COMMON_PLATFORM)
    \<and> fst (uPortTimerStop P h s) \<noteq> U_ERROR_COMMON_INVALID_PARAMETER
    \<and> trace (snd (uPortTimerStop P h s)) = trace s @ [xTimerStop h portMAX_DELAY])
   \<and> (fst (uPortTimerChange C P h intervalMs s) =
      (if ret (P (trace s) (xTimerChangePeriod h (intervalMs div portTICK_PERIOD_MS C)
                              portMAX_DELAY)) = pdPASS
       then U_ERROR_COMMON_SUCCESS else U_ERROR_COMMON_PLATFORM)
    \<and> fst (uPortTimerChange C P h intervalMs s) \<noteq> U_ERROR_COMMON_INVALID_PARAMETER
    \<and> trace (snd (uPortTimerChange C P h intervalMs s)) =
        trace s @ [xTimerChangePeriod h (intervalMs div portTICK_PERIOD_MS C) portMAX_DELAY])
   \<and> (uPortQueueDelete P NULL s = (U_ERROR_COMMON_INVALID_PARAMETER, s)
    \<and> uPortQueueSend P NULL d s = (U_ERROR_COMMON_INVALID_PARAMETER, s)
    \<and> uPortQueueSendIrq P NULL d s = (U_ERROR_COMMON_INVALID_PARAMETER, s)
    \<and> uPortQueueReceive P NULL d s = (U_ERROR_COMMON_INVALID_PARAMETER, s)
    \<and> uPortQueueReceiveIrq P NULL d s = (U_ERROR_COMMON_INVALID_PARAMETER, s)
    \<and> uPortQueueTryReceive C P NULL w d s = (U_ERROR_COMMON_INVALID_PARAMETER, s)
    \<and> uPortQueuePeek P NULL d s = (U_ERROR_COMMON_INVALID_PARAMETER, s)
    \<and> uPortQueueGetFree P NULL s = (U_ERROR_COMMON_INVALID_PARAMETER, s)
    \<and> uPortMutexDelete P NULL s = (U_ERROR_COMMON_INVALID_PARAMETER, s)
    \<and> uPortMutexLock P NULL s = (U_ERROR_COMMON_INVALID_PARAMETER, s)
    \<and> uPortMutexTryLock C P NULL w s = (U_ERROR_COMMON_INVALID_PARAMETER, s)
    \<and> uPortMutexUnlock P NULL s = (U_ERROR_COMMON_INVALID_PARAMETER, s)
    \<and> uPortSemaphoreDelete P NULL s = (U_ERROR_COMMON_INVALID_PARAMETER, s)
    \<and> uPortSemaphoreTake P NULL s = (U_ERROR_COMMON_INVALID_PARAMETER, s)
    \<and> uPortSemaphoreTryTake C P NULL w s = (U_ERROR_COMMON_INVALID_PARAMETER, s)
    \<and> uPortSemaphoreGive P NULL s = (U_ERROR_COMMON_INVALID_PARAMETER, s)
    \<and> uPortSemaphoreGiveIrq P NULL s = (U_ERROR_COMMON_INVALID_PARAMETER, s))
   \<and> (fst (uPortTimerDelete P h s) = ret (P (trace s) (uPortPrivateTimerDelete h))
    \<and> trace (snd (uPortTimerDelete P h s)) = trace s @ [uPortPrivateTimerDelete h])
   \<and> uPortTaskStackMinFree P h s =
       (if h = NULL
        then (ret (P (trace s @ [xTaskGetCurrentTaskHandle])
                     (uxTaskGetStackHighWaterMark
                        (ret (P (trace s) xTaskGetCurrentTaskHandle)))),
              s\<lparr>trace := trace s @ [xTaskGetCurrentTaskHandle,
                      uxTaskGetStackHighWaterMark
                        (ret (P (trace s) xTaskGetCurrentTaskHandle))]\<rparr>)
        else (ret (P (trace s) (uxTaskGetStackHighWaterMark h)),
              s\<lparr>trace := trace s @ [uxTaskGetStackHighWaterMark h]\<rparr>))
   \<and> uPortTaskIsThis P h s =
       (ret (P (trace s) xTaskGetCurrentTaskHandle) = h,
        s\<lparr>trace := trace s @ [xTaskGetCurrentTaskHandle]\<rparr>)
   \<and> (fst (uPortTaskDelete P NULL s) = U_ERROR_COMMON_SUCCESS
    \<and> trace (snd (uPortTaskDelete P NULL s)) = trace s @ [vTaskDelete NULL])"
  by (intro conjI uPortTimerStart_unchecked uPortTimerStop_unchecked
        uPortTimerChange_unchecked null_handle_rejected uPortTimerDelete_unchecked
        uPortTaskStackMinFree_unchecked uPortTaskIsThis_unchecked
        uPortTaskDelete_null_accepted)

subsection \<open>The debug build of the queue send\<close>

text \<open>
  When the polling loop returns, the result is success, or the invalid parameter code of
  the check before the loop; it returns at once when the kernel accepts the first attempt.
  On a queue that is full for the first three platform calls the loop prints its notice,
  blocks for the yield time of 1 ms and succeeds at the second attempt.
\<close>

lemma uPortQueueSend_debug_result:
  "uPortQueueSend_debug C P q d s = Some (e, s') \<Longrightarrow>
   e = U_ERROR_COMMON_SUCCESS \<or> e = U_ERROR_COMMON_INVALID_PARAMETER"
  by (auto simp add: uPortQueueSend_debug_def Let_def split: if_splits option.splits)

lemma uPortQueueSend_debug_accepted_at_once:
  "q \<noteq> NULL \<Longrightarrow> d \<noteq> NULL \<Longrightarrow> ret (P (trace s) (xQueueSend q d 0)) = pdTRUE \<Longrightarrow>
   uPortQueueSend_debug C P q d s =
     Some (U_ERROR_COMMON_SUCCESS, s\<lparr>trace := trace s @ [xQueueSend q d 0]\<rparr>)"
  by (simp add: uPortQueueSend_debug_def queueSendRetry.simps [of C P q d 0 s] Let_def
        invoke_def)

lemma uPortQueueSend_debug_example:
  "uPortQueueSend_debug stm32f4_cfg (full_for 3) 0x3FFB1000 0x3FFB2000 os_init =
     Some (U_ERROR_COMMON_SUCCESS,
           os_init\<lparr>trace := [xQueueSend 0x3FFB1000 0x3FFB2000 0, uPortLog 0x3FFB1000,
                              vTaskDelay 1, xQueueSend 0x3FFB1000 0x3FFB2000 0]\<rparr>)"
  by (simp add: uPortQueueSend_debug_def queueSendRetry.simps Let_def
        invoke_def full_for_def os_init_def stm32f4_cfg_def NULL_def pdTRUE_def
        uPortTaskBlock_def)

end
